theory Spec2Isabelle
  imports Complex_Main
begin

section \<open>JSON values and the libraries the server relies on\<close>

text \<open>
  A request body is the object produced by the JSON body parser: a finite map from
  property names to JSON values. A property that is absent reads as \<open>undefined\<close>,
  which is \<open>None\<close> here. Strings are lists of characters; \<open>length\<close> is what
  the validation library's \<open>min\<close> counts.
\<close>

datatype json =
    JNull
  | JBool bool
  | JNum rat
  | JStr string
  | JArr "json list"
  | JObj "(string \<times> json) list"

type_synonym body = "string \<Rightarrow> json option"

text \<open>JavaScript truthiness, as used by \<open>!user.verified\<close> and \<open>description || ''\<close>.\<close>

fun truthy :: "json option \<Rightarrow> bool" where
  "truthy None = False"
| "truthy (Some JNull) = False"
| "truthy (Some (JBool b)) = b"
| "truthy (Some (JNum n)) = (n \<noteq> 0)"
| "truthy (Some (JStr s)) = (s \<noteq> [])"
| "truthy (Some (JArr xs)) = True"
| "truthy (Some (JObj kvs)) = True"

text \<open>
  Four behaviours belong to libraries, not to this repository, and are parameters of
  the model:
  \<^item> \<open>zod_email\<close>: the pattern behind \<open>z.string().email()\<close>;
  \<^item> \<open>mongo_match\<close>: how the database matches a filter value that is not a string
    (\<open>undefined\<close>, \<open>null\<close>, a number, or a document of query operators such as
    \<open>{$ne: ...}\<close>) against a stored string. The routes pass \<open>req.body\<close> properties
    to the adapter unchecked, so such values do reach the database;
  \<^item> \<open>mongo_refuses\<close>: the filter values the database refuses (an unknown operator
    such as \<open>{$foo: 1}\<close>); the driver's call then throws;
  \<^item> \<open>object_id\<close>: \<open>new ObjectId(v).toString()\<close>, \<open>None\<close> when the constructor
    throws.
  Every theorem below holds for all choices of the four. A lost connection to the
  database is outside the model.
\<close>

record lib =
  zod_email :: "string \<Rightarrow> bool"
  mongo_match :: "json option \<Rightarrow> string \<Rightarrow> bool"
  mongo_refuses :: "json option \<Rightarrow> bool"
  object_id :: "json option \<Rightarrow> string option"

text \<open>The filter \<open>{field: q}\<close> against a stored string: equality when \<open>q\<close> is a string.\<close>

fun field_matches :: "lib \<Rightarrow> json option \<Rightarrow> string \<Rightarrow> bool" where
  "field_matches L (Some (JStr t)) s = (t = s)"
| "field_matches L q s = mongo_match L q s"

text \<open>A string is never refused as a filter value.\<close>

fun filter_refused :: "lib \<Rightarrow> json option \<Rightarrow> bool" where
  "filter_refused L (Some (JStr t)) = False"
| "filter_refused L q = mongo_refuses L q"

subsection \<open>Validation primitives (zod)\<close>

text \<open>Each primitive returns \<open>None\<close> where zod reports an issue.\<close>

fun z_string :: "json option \<Rightarrow> string option" where
  "z_string (Some (JStr s)) = Some s"
| "z_string _ = None"

fun z_string_optional :: "json option \<Rightarrow> string option option" where
  "z_string_optional None = Some None"
| "z_string_optional (Some (JStr s)) = Some (Some s)"
| "z_string_optional _ = None"

fun z_string_min :: "nat \<Rightarrow> json option \<Rightarrow> string option" where
  "z_string_min n (Some (JStr s)) = (if n \<le> length s then Some s else None)"
| "z_string_min n _ = None"

fun z_string_email :: "lib \<Rightarrow> json option \<Rightarrow> string option" where
  "z_string_email L (Some (JStr s)) = (if zod_email L s then Some s else None)"
| "z_string_email L _ = None"

fun z_enum :: "string list \<Rightarrow> json option \<Rightarrow> string option" where
  "z_enum vs (Some (JStr s)) = (if s \<in> set vs then Some s else None)"
| "z_enum vs _ = None"

fun z_boolean_default :: "bool \<Rightarrow> json option \<Rightarrow> bool option" where
  "z_boolean_default d None = Some d"
| "z_boolean_default d (Some (JBool b)) = Some b"
| "z_boolean_default d _ = None"

fun z_number :: "json option \<Rightarrow> rat option" where
  "z_number (Some (JNum n)) = Some n"
| "z_number _ = None"

section \<open>Entities (shared/schema.ts)\<close>

text \<open>
  The insert variants omit \<open>_id\<close> and the timestamp. A stored user's \<open>verified\<close>
  is a JSON value: \<open>POST /api/verify-user\<close> writes whatever the request carries.
\<close>

record insert_user =
  iu_name :: string
  iu_email :: string
  iu_password :: string
  iu_role :: string
  iu_verified :: bool
  iu_specialty :: "string option"

record user =
  u_id :: string
  u_name :: string
  u_email :: string
  u_password :: string
  u_role :: string
  u_verified :: json
  u_specialty :: "string option"
  u_createdAt :: nat

record insert_record =
  ir_patientId :: string
  ir_filename :: string
  ir_filePath :: string
  ir_description :: string
  ir_fileType :: string
  ir_fileSize :: rat

record record_doc =
  r_id :: string
  r_patientId :: string
  r_filename :: string
  r_filePath :: string
  r_description :: string
  r_fileType :: string
  r_fileSize :: rat
  r_uploadDate :: nat

record insert_access =
  ia_patientId :: string
  ia_doctorId :: string
  ia_granted :: bool

record access_doc =
  a_id :: string
  a_patientId :: string
  a_doctorId :: string
  a_granted :: bool
  a_grantedAt :: nat

record insert_note =
  in_doctorId :: string
  in_patientId :: string
  in_consultationType :: string
  in_content :: string
  in_diagnosis :: "string option"
  in_nextAppointment :: "string option"

record note_doc =
  n_id :: string
  n_doctorId :: string
  n_patientId :: string
  n_consultationType :: string
  n_content :: string
  n_diagnosis :: "string option"
  n_nextAppointment :: "string option"
  n_createdAt :: nat

text \<open>
  \<open>schema.parse(b)\<close>: the parsed object with unknown keys stripped, or \<open>None\<close>
  where zod throws a \<open>ZodError\<close>.
\<close>

definition insertUserSchema :: "lib \<Rightarrow> body \<Rightarrow> insert_user option" where
  "insertUserSchema L b =
     (case (z_string_min 1 (b ''name''), z_string_email L (b ''email''),
            z_string_min 6 (b ''password''),
            z_enum [''patient'', ''doctor'', ''admin''] (b ''role''),
            z_boolean_default False (b ''verified''),
            z_string_optional (b ''specialty'')) of
        (Some n, Some e, Some p, Some r, Some v, Some sp) \<Rightarrow>
          Some \<lparr>iu_name = n, iu_email = e, iu_password = p, iu_role = r,
                iu_verified = v, iu_specialty = sp\<rparr>
      | _ \<Rightarrow> None)"

definition insertRecordSchema :: "body \<Rightarrow> insert_record option" where
  "insertRecordSchema b =
     (case (z_string (b ''patientId''), z_string (b ''filename''),
            z_string (b ''filePath''), z_string (b ''description''),
            z_string (b ''fileType''), z_number (b ''fileSize'')) of
        (Some p, Some f, Some fp, Some d, Some t, Some sz) \<Rightarrow>
          Some \<lparr>ir_patientId = p, ir_filename = f, ir_filePath = fp,
                ir_description = d, ir_fileType = t, ir_fileSize = sz\<rparr>
      | _ \<Rightarrow> None)"

definition insertAccessSchema :: "body \<Rightarrow> insert_access option" where
  "insertAccessSchema b =
     (case (z_string (b ''patientId''), z_string (b ''doctorId''),
            z_boolean_default True (b ''granted'')) of
        (Some p, Some d, Some g) \<Rightarrow>
          Some \<lparr>ia_patientId = p, ia_doctorId = d, ia_granted = g\<rparr>
      | _ \<Rightarrow> None)"

definition insertNoteSchema :: "body \<Rightarrow> insert_note option" where
  "insertNoteSchema b =
     (case (z_string (b ''doctorId''), z_string (b ''patientId''),
            z_string (b ''consultationType''), z_string (b ''content''),
            z_string_optional (b ''diagnosis''),
            z_string_optional (b ''nextAppointment'')) of
        (Some d, Some p, Some c, Some t, Some dg, Some na) \<Rightarrow>
          Some \<lparr>in_doctorId = d, in_patientId = p, in_consultationType = c,
                in_content = t, in_diagnosis = dg, in_nextAppointment = na\<rparr>
      | _ \<Rightarrow> None)"

section \<open>The document store adapter (server/storage.ts)\<close>

text \<open>
  A collection is the list of its documents in insertion order. \<open>findOne\<close> is
  \<^const>\<open>List.find\<close>; \<open>deleteOne\<close> and \<open>updateOne\<close> act on the first match only.
  The adapter's methods that only the listing routes call (\<open>getUser\<close>,
  \<open>getAllUsers\<close>, \<open>getPendingVerifications\<close>, \<open>getPatientAccess\<close>,
  \<open>getDoctorAccess\<close>, \<open>getNotesByPatient\<close>, \<open>getNotesByDoctor\<close>) read the
  store without changing it and are left out.

  \<open>getUserByEmail\<close> and \<open>revokeAccess\<close> receive a filter value straight from the
  request body. When the database refuses it (\<^const>\<open>filter_refused\<close>) the call throws;
  the two functions below give what the call does otherwise, and the handlers that call
  them test \<^const>\<open>filter_refused\<close> at the call and go to their \<open>catch\<close>.
\<close>

record store =
  users :: "user list"
  records :: "record_doc list"
  access :: "access_doc list"
  "notes" :: "note_doc list"

definition empty_store :: store where
  "empty_store = \<lparr>users = [], records = [], access = [], notes = []\<rparr>"

fun deleteOne :: "('a \<Rightarrow> bool) \<Rightarrow> 'a list \<Rightarrow> 'a list" where
  "deleteOne P [] = []"
| "deleteOne P (x # xs) = (if P x then xs else x # deleteOne P xs)"

fun updateOne :: "('a \<Rightarrow> bool) \<Rightarrow> ('a \<Rightarrow> 'a) \<Rightarrow> 'a list \<Rightarrow> 'a list" where
  "updateOne P f [] = []"
| "updateOne P f (x # xs) = (if P x then f x # xs else x # updateOne P f xs)"

text \<open>
  What the environment supplies to an insert: the identifier the driver generates and
  the two readings of the clock (one for the stored document, one for the returned copy).
\<close>

record env =
  insertedId :: string
  date1 :: nat
  date2 :: nat

definition getUserByEmail :: "lib \<Rightarrow> store \<Rightarrow> json option \<Rightarrow> user option" where
  "getUserByEmail L s q = List.find (\<lambda>u. field_matches L q (u_email u)) (users s)"

definition user_doc :: "insert_user \<Rightarrow> string \<Rightarrow> nat \<Rightarrow> user" where
  "user_doc i oid t =
     \<lparr>u_id = oid, u_name = iu_name i, u_email = iu_email i, u_password = iu_password i,
      u_role = iu_role i, u_verified = JBool (iu_verified i),
      u_specialty = iu_specialty i, u_createdAt = t\<rparr>"

definition createUser :: "env \<Rightarrow> insert_user \<Rightarrow> store \<Rightarrow> user \<times> store" where
  "createUser e i s =
     (user_doc i (insertedId e) (date2 e),
      s\<lparr>users := users s @ [user_doc i (insertedId e) (date1 e)]\<rparr>)"

text \<open>
  \<open>new ObjectId(id)\<close> throws on a malformed identifier: \<open>None\<close>. The value of
  \<open>verified\<close> is stored as it comes, \<open>undefined\<close> as \<open>null\<close>; were the database
  to refuse a value the store would stay as it is, so taking every value only adds stores
  to those the model can reach.
\<close>

definition updateUserVerification :: "lib \<Rightarrow> json option \<Rightarrow> json option \<Rightarrow> store \<Rightarrow> store option" where
  "updateUserVerification L ident v s =
     (case object_id L ident of
        None \<Rightarrow> None
      | Some oid \<Rightarrow>
          Some (s\<lparr>users := updateOne (\<lambda>u. u_id u = oid)
                    (\<lambda>u. u\<lparr>u_verified := (case v of None \<Rightarrow> JNull | Some j \<Rightarrow> j)\<rparr>)
                    (users s)\<rparr>))"

definition record_of :: "insert_record \<Rightarrow> string \<Rightarrow> nat \<Rightarrow> record_doc" where
  "record_of i oid t =
     \<lparr>r_id = oid, r_patientId = ir_patientId i, r_filename = ir_filename i,
      r_filePath = ir_filePath i, r_description = ir_description i,
      r_fileType = ir_fileType i, r_fileSize = ir_fileSize i, r_uploadDate = t\<rparr>"

definition createRecord :: "env \<Rightarrow> insert_record \<Rightarrow> store \<Rightarrow> record_doc \<times> store" where
  "createRecord e i s =
     (record_of i (insertedId e) (date2 e),
      s\<lparr>records := records s @ [record_of i (insertedId e) (date1 e)]\<rparr>)"

text \<open>
  \<open>find({patientId}).sort({uploadDate: -1})\<close>: newest first. The database does not
  fix the order of documents with equal dates; the model takes the later insertion first.
\<close>

definition getRecordsByPatient :: "store \<Rightarrow> string \<Rightarrow> record_doc list" where
  "getRecordsByPatient s p =
     rev (sort_key r_uploadDate (filter (\<lambda>r. r_patientId r = p) (records s)))"

definition getAllRecords :: "store \<Rightarrow> record_doc list" where
  "getAllRecords s = records s"

definition access_of :: "insert_access \<Rightarrow> string \<Rightarrow> nat \<Rightarrow> access_doc" where
  "access_of i oid t =
     \<lparr>a_id = oid, a_patientId = ia_patientId i, a_doctorId = ia_doctorId i,
      a_granted = ia_granted i, a_grantedAt = t\<rparr>"

definition grantAccess :: "env \<Rightarrow> insert_access \<Rightarrow> store \<Rightarrow> access_doc \<times> store" where
  "grantAccess e i s =
     (access_of i (insertedId e) (date2 e),
      s\<lparr>access :=
          deleteOne (\<lambda>a. a_patientId a = ia_patientId i \<and> a_doctorId a = ia_doctorId i)
            (access s)
          @ [access_of i (insertedId e) (date1 e)]\<rparr>)"

definition revokeAccess :: "lib \<Rightarrow> string \<Rightarrow> json option \<Rightarrow> store \<Rightarrow> store" where
  "revokeAccess L p q s =
     s\<lparr>access := deleteOne (\<lambda>a. a_patientId a = p \<and> field_matches L q (a_doctorId a))
                    (access s)\<rparr>"

definition checkAccess :: "store \<Rightarrow> string \<Rightarrow> string \<Rightarrow> bool" where
  "checkAccess s p d =
     (List.find (\<lambda>a. a_patientId a = p \<and> a_doctorId a = d \<and> a_granted a) (access s)
        \<noteq> None)"

definition note_of :: "insert_note \<Rightarrow> string \<Rightarrow> nat \<Rightarrow> note_doc" where
  "note_of i oid t =
     \<lparr>n_id = oid, n_doctorId = in_doctorId i, n_patientId = in_patientId i,
      n_consultationType = in_consultationType i, n_content = in_content i,
      n_diagnosis = in_diagnosis i, n_nextAppointment = in_nextAppointment i,
      n_createdAt = t\<rparr>"

definition createNote :: "env \<Rightarrow> insert_note \<Rightarrow> store \<Rightarrow> note_doc \<times> store" where
  "createNote e i s =
     (note_of i (insertedId e) (date2 e),
      s\<lparr>notes := notes s @ [note_of i (insertedId e) (date1 e)]\<rparr>)"

section \<open>Sessions, responses and middleware (server/routes.ts)\<close>

record session_user =
  su_id :: string
  su_email :: string
  su_role :: string
  su_name :: string
  su_verified :: json

datatype exn = ZodError | TypeError | BSONError | MongoError

datatype payload =
    NoPayload
  | ErrorOf exn
  | UserId string
  | SessionUser "session_user option"
  | RecordDoc record_doc
  | Records "record_doc list"
  | AccessDoc access_doc
  | NoteDoc note_doc

text \<open>
  \<open>res.status(c).json({message, ...})\<close>; \<open>res.json\<close> alone answers 200. The text
  of a caught error is the library's, so only its kind is kept.
\<close>

record reply =
  status :: nat
  message :: "string option"
  payload :: payload

definition respond :: "nat \<Rightarrow> string \<Rightarrow> payload \<Rightarrow> reply" where
  "respond c m p = \<lparr>status = c, message = Some m, payload = p\<rparr>"

definition requireAuth :: "session_user option \<Rightarrow> reply option" where
  "requireAuth sess =
     (if sess = None then Some (respond 401 ''Authentication required'' NoPayload)
      else None)"

definition requireRole :: "string list \<Rightarrow> session_user option \<Rightarrow> reply option" where
  "requireRole roles sess =
     (case sess of
        None \<Rightarrow> Some (respond 403 ''Insufficient permissions'' NoPayload)
      | Some su \<Rightarrow>
          if su_role su \<in> set roles then None
          else Some (respond 403 ''Insufficient permissions'' NoPayload))"

subsection \<open>The upload middleware (multer)\<close>

text \<open>
  The file part posted in field \<open>file\<close>, if any: its declared name and MIME type, its
  length in bytes, and the path the disk storage gives it. Other multipart shapes (a file
  under another field, several files) are refused by multer itself and are not modelled.
\<close>

record upfile =
  f_originalname :: string
  f_mimetype :: string
  f_path :: string
  f_size :: nat

datatype upload_error = InvalidFileType | LimitFileSize

definition allowedTypes :: "string list" where
  "allowedTypes = [''application/pdf'', ''image/jpeg'', ''image/png'', ''image/jpg'']"

definition fileFilter :: "upfile \<Rightarrow> bool" where
  "fileFilter f = (f_mimetype f \<in> set allowedTypes)"

definition fileSizeLimit :: nat where
  "fileSizeLimit = 10 * 1024 * 1024"

text \<open>
  \<open>upload.single('file')\<close>: the filter sees the part's header before any byte is
  stored; the size limit is hit while the file streams in. Either way multer calls
  \<open>next(err)\<close> and the route handler is skipped. The limit is multer's
  \<open>limits.fileSize\<close>, the largest size accepted.
\<close>

definition upload_single :: "upfile option \<Rightarrow> upload_error + upfile option" where
  "upload_single file =
     (case file of
        None \<Rightarrow> Inr None
      | Some f \<Rightarrow>
          if \<not> fileFilter f then Inl InvalidFileType
          else if fileSizeLimit < f_size f then Inl LimitFileSize
          else Inr (Some f))"

section \<open>Route handlers\<close>

text \<open>
  Each handler is the body of the \<open>async (req, res)\<close> function: it takes what it
  reads from the request and the store, and returns its response with the store (or the
  session) it leaves. \<open>req.session.user!._id\<close> on a request without a session user
  throws a \<open>TypeError\<close> inside the handler's \<open>try\<close>, and so does an adapter call
  whose filter the database refuses (a \<open>MongoError\<close>); the handler's \<open>catch\<close>
  answers both.
\<close>

definition register :: "lib \<Rightarrow> env \<Rightarrow> body \<Rightarrow> store \<Rightarrow> reply \<times> store" where
  "register L e b s =
     (case insertUserSchema L b of
        None \<Rightarrow> (respond 400 ''Registration failed'' (ErrorOf ZodError), s)
      | Some userData \<Rightarrow>
          (case getUserByEmail L s (Some (JStr (iu_email userData))) of
             Some existingUser \<Rightarrow>
               (respond 400 ''User already exists with this email'' NoPayload, s)
           | None \<Rightarrow>
               (case createUser e (userData\<lparr>iu_verified := (iu_role userData = ''admin'')\<rparr>) s of
                  (user, s') \<Rightarrow>
                    (respond 201 ''User registered successfully'' (UserId (u_id user)), s'))))"

definition session_of :: "user \<Rightarrow> session_user" where
  "session_of u =
     \<lparr>su_id = u_id u, su_email = u_email u, su_role = u_role u, su_name = u_name u,
      su_verified = u_verified u\<rparr>"

definition login :: "lib \<Rightarrow> session_user option \<Rightarrow> body \<Rightarrow> store \<Rightarrow> reply \<times> session_user option" where
  "login L sess b s =
     (if filter_refused L (b ''email'')
      then (respond 500 ''Login failed'' (ErrorOf MongoError), sess)
      else
        (case getUserByEmail L s (b ''email'') of
           None \<Rightarrow> (respond 401 ''Invalid credentials'' NoPayload, sess)
         | Some u \<Rightarrow>
             if Some (JStr (u_password u)) \<noteq> b ''password'' \<or> Some (JStr (u_role u)) \<noteq> b ''role''
             then (respond 401 ''Invalid credentials'' NoPayload, sess)
             else if \<not> truthy (Some (u_verified u))
             then (respond 401 ''Account pending verification'' NoPayload, sess)
             else (respond 200 ''Login successful'' (SessionUser (Some (session_of u))),
                   Some (session_of u))))"

definition post_records :: "env \<Rightarrow> session_user option \<Rightarrow> body \<Rightarrow> store \<Rightarrow> reply \<times> store" where
  "post_records e sess b s =
     (case sess of
        None \<Rightarrow> (respond 500 ''Failed to create record'' (ErrorOf TypeError), s)
      | Some su \<Rightarrow>
          (case insertRecordSchema (b(''patientId'' \<mapsto> JStr (su_id su))) of
             None \<Rightarrow> (respond 500 ''Failed to create record'' (ErrorOf ZodError), s)
           | Some recordData \<Rightarrow>
               (case createRecord e recordData s of
                  (record, s') \<Rightarrow>
                    (respond 200 ''Record created successfully'' (RecordDoc record), s'))))"

text \<open>The object the upload handler builds for the schema; \<open>description || ''\<close>.\<close>

definition upload_body :: "session_user \<Rightarrow> upfile \<Rightarrow> body \<Rightarrow> body" where
  "upload_body su f b =
     [''patientId'' \<mapsto> JStr (su_id su),
      ''filename'' \<mapsto> JStr (f_originalname f),
      ''filePath'' \<mapsto> JStr (f_path f),
      ''description'' \<mapsto>
         (case b ''description'' of
            Some d \<Rightarrow> if truthy (Some d) then d else JStr []
          | None \<Rightarrow> JStr []),
      ''fileType'' \<mapsto> JStr (f_mimetype f),
      ''fileSize'' \<mapsto> JNum (of_nat (f_size f))]"

definition upload :: "env \<Rightarrow> session_user option \<Rightarrow> upfile option \<Rightarrow> body \<Rightarrow> store \<Rightarrow> reply \<times> store" where
  "upload e sess file b s =
     (case file of
        None \<Rightarrow> (respond 400 ''No file uploaded'' NoPayload, s)
      | Some f \<Rightarrow>
          (case sess of
             None \<Rightarrow> (respond 500 ''Upload failed'' (ErrorOf TypeError), s)
           | Some su \<Rightarrow>
               (case insertRecordSchema (upload_body su f b) of
                  None \<Rightarrow> (respond 500 ''Upload failed'' (ErrorOf ZodError), s)
                | Some recordData \<Rightarrow>
                    (case createRecord e recordData s of
                       (record, s') \<Rightarrow>
                         (respond 200 ''File uploaded successfully'' (RecordDoc record), s')))))"

definition grant_access :: "lib \<Rightarrow> env \<Rightarrow> session_user option \<Rightarrow> body \<Rightarrow> store \<Rightarrow> reply \<times> store" where
  "grant_access L e sess b s =
     (if filter_refused L (b ''doctorEmail'')
      then (respond 500 ''Failed to grant access'' (ErrorOf MongoError), s)
      else
        (case getUserByEmail L s (b ''doctorEmail'') of
           None \<Rightarrow> (respond 400 ''Doctor not found or not verified'' NoPayload, s)
         | Some doctor \<Rightarrow>
             if u_role doctor \<noteq> ''doctor'' \<or> \<not> truthy (Some (u_verified doctor))
             then (respond 400 ''Doctor not found or not verified'' NoPayload, s)
             else
               (case sess of
                  None \<Rightarrow> (respond 500 ''Failed to grant access'' (ErrorOf TypeError), s)
                | Some su \<Rightarrow>
                    (case insertAccessSchema
                            [''patientId'' \<mapsto> JStr (su_id su),
                             ''doctorId'' \<mapsto> JStr (u_id doctor),
                             ''granted'' \<mapsto> JBool True] of
                       None \<Rightarrow> (respond 500 ''Failed to grant access'' (ErrorOf ZodError), s)
                     | Some accessData \<Rightarrow>
                         (case grantAccess e accessData s of
                            (acc, s') \<Rightarrow>
                              (respond 200 ''Access granted successfully'' (AccessDoc acc), s'))))))"

definition revoke_access :: "lib \<Rightarrow> session_user option \<Rightarrow> body \<Rightarrow> store \<Rightarrow> reply \<times> store" where
  "revoke_access L sess b s =
     (case sess of
        None \<Rightarrow> (respond 500 ''Failed to revoke access'' (ErrorOf TypeError), s)
      | Some su \<Rightarrow>
          if filter_refused L (b ''doctorId'')
          then (respond 500 ''Failed to revoke access'' (ErrorOf MongoError), s)
          else (respond 200 ''Access revoked successfully'' NoPayload,
                revokeAccess L (su_id su) (b ''doctorId'') s))"

definition get_records :: "session_user option \<Rightarrow> store \<Rightarrow> reply" where
  "get_records sess s =
     (case sess of
        None \<Rightarrow> respond 500 ''Failed to fetch records'' (ErrorOf TypeError)
      | Some su \<Rightarrow>
          if su_role su = ''patient''
          then \<lparr>status = 200, message = None,
                payload = Records (getRecordsByPatient s (su_id su))\<rparr>
          else if su_role su = ''admin''
          then \<lparr>status = 200, message = None, payload = Records (getAllRecords s)\<rparr>
          else respond 403 ''Access denied'' NoPayload)"

definition get_patient_records :: "session_user option \<Rightarrow> string \<Rightarrow> store \<Rightarrow> reply" where
  "get_patient_records sess patientId s =
     (case sess of
        None \<Rightarrow> respond 500 ''Failed to fetch patient records'' (ErrorOf TypeError)
      | Some su \<Rightarrow>
          if \<not> checkAccess s patientId (su_id su)
          then respond 403 ''Access denied to patient records'' NoPayload
          else \<lparr>status = 200, message = None,
                payload = Records (getRecordsByPatient s patientId)\<rparr>)"

definition post_notes :: "env \<Rightarrow> session_user option \<Rightarrow> body \<Rightarrow> store \<Rightarrow> reply \<times> store" where
  "post_notes e sess b s =
     (case sess of
        None \<Rightarrow> (respond 500 ''Failed to add note'' (ErrorOf TypeError), s)
      | Some su \<Rightarrow>
          (case insertNoteSchema (b(''doctorId'' \<mapsto> JStr (su_id su))) of
             None \<Rightarrow> (respond 500 ''Failed to add note'' (ErrorOf ZodError), s)
           | Some noteData \<Rightarrow>
               if \<not> checkAccess s (in_patientId noteData) (su_id su)
               then (respond 403 ''Access denied to patient records'' NoPayload, s)
               else
                 (case createNote e noteData s of
                    (note, s') \<Rightarrow>
                      (respond 200 ''Note added successfully'' (NoteDoc note), s'))))"

definition verify_user :: "lib \<Rightarrow> body \<Rightarrow> store \<Rightarrow> reply \<times> store" where
  "verify_user L b s =
     (case updateUserVerification L (b ''userId'') (b ''verified'') s of
        None \<Rightarrow> (respond 500 ''Failed to update user verification'' (ErrorOf BSONError), s)
      | Some s' \<Rightarrow>
          (respond 200
             (if truthy (b ''verified'') then ''User verified successfully''
              else ''User rejected successfully'') NoPayload,
           s'))"

section \<open>Requests through the middleware chain\<close>

text \<open>
  The routes that write to the store or to the session, and the two that read records.
  The four listing routes (\<open>/api/pending-verifications\<close>, \<open>/api/users\<close>,
  \<open>/api/doctor-patients\<close>, \<open>/api/patient-access\<close>) only read and are left out.
\<close>

datatype route =
    Register
  | Login
  | Logout
  | Me
  | PostRecords
  | Upload
  | GrantAccess
  | RevokeAccess
  | GetRecords
  | GetPatientRecords string
  | PostNotes
  | VerifyUser

record request =
  rq_route :: route
  rq_session :: "session_user option"
  rq_body :: body
  rq_file :: "upfile option"
  rq_env :: env

text \<open>
  A request ends with a response, or with an error handed to the error handling of the
  framework by \<open>next(err)\<close>, which lies outside the routes.
\<close>

datatype outcome = Reply reply | NextError upload_error

text \<open>The guards of a route in order: the first that answers ends the request.\<close>

fun through :: "reply option list \<Rightarrow> reply option" where
  "through [] = None"
| "through (None # gs) = through gs"
| "through (Some r # gs) = Some r"

definition handle :: "lib \<Rightarrow> request \<Rightarrow> store \<Rightarrow> outcome \<times> session_user option \<times> store" where
  "handle L rq s =
     (let sess = rq_session rq; b = rq_body rq; e = rq_env rq in
      case rq_route rq of
        Register \<Rightarrow> (case register L e b s of (r, s') \<Rightarrow> (Reply r, sess, s'))
      | Login \<Rightarrow> (case login L sess b s of (r, sess') \<Rightarrow> (Reply r, sess', s))
      | Logout \<Rightarrow> (Reply (respond 200 ''Logout successful'' NoPayload), None, s)
      | Me \<Rightarrow>
          (case through [requireAuth sess] of
             Some r \<Rightarrow> (Reply r, sess, s)
           | None \<Rightarrow>
               (Reply \<lparr>status = 200, message = None, payload = SessionUser sess\<rparr>, sess, s))
      | PostRecords \<Rightarrow>
          (case through [requireAuth sess, requireRole [''patient''] sess] of
             Some r \<Rightarrow> (Reply r, sess, s)
           | None \<Rightarrow> (case post_records e sess b s of (r, s') \<Rightarrow> (Reply r, sess, s')))
      | Upload \<Rightarrow>
          (case through [requireAuth sess, requireRole [''patient''] sess] of
             Some r \<Rightarrow> (Reply r, sess, s)
           | None \<Rightarrow>
               (case upload_single (rq_file rq) of
                  Inl err \<Rightarrow> (NextError err, sess, s)
                | Inr file \<Rightarrow>
                    (case upload e sess file b s of (r, s') \<Rightarrow> (Reply r, sess, s'))))
      | GrantAccess \<Rightarrow>
          (case through [requireAuth sess, requireRole [''patient''] sess] of
             Some r \<Rightarrow> (Reply r, sess, s)
           | None \<Rightarrow> (case grant_access L e sess b s of (r, s') \<Rightarrow> (Reply r, sess, s')))
      | RevokeAccess \<Rightarrow>
          (case through [requireAuth sess, requireRole [''patient''] sess] of
             Some r \<Rightarrow> (Reply r, sess, s)
           | None \<Rightarrow> (case revoke_access L sess b s of (r, s') \<Rightarrow> (Reply r, sess, s')))
      | GetRecords \<Rightarrow>
          (case through [requireAuth sess] of
             Some r \<Rightarrow> (Reply r, sess, s)
           | None \<Rightarrow> (Reply (get_records sess s), sess, s))
      | GetPatientRecords patientId \<Rightarrow>
          (case through [requireAuth sess, requireRole [''doctor''] sess] of
             Some r \<Rightarrow> (Reply r, sess, s)
           | None \<Rightarrow> (Reply (get_patient_records sess patientId s), sess, s))
      | PostNotes \<Rightarrow>
          (case through [requireAuth sess, requireRole [''doctor''] sess] of
             Some r \<Rightarrow> (Reply r, sess, s)
           | None \<Rightarrow> (case post_notes e sess b s of (r, s') \<Rightarrow> (Reply r, sess, s')))
      | VerifyUser \<Rightarrow>
          (case through [requireAuth sess, requireRole [''admin''] sess] of
             Some r \<Rightarrow> (Reply r, sess, s)
           | None \<Rightarrow> (case verify_user L b s of (r, s') \<Rightarrow> (Reply r, sess, s'))))"

definition store_after :: "outcome \<times> session_user option \<times> store \<Rightarrow> store" where
  "store_after x = snd (snd x)"

text \<open>
  The stores the server can be in: the empty database, and whatever a request leaves,
  one request after the other (requests do not interleave in the model). The session a
  request carries is arbitrary, so the set covers every sequence of logins.
\<close>

inductive reachable :: "lib \<Rightarrow> store \<Rightarrow> bool" for L :: lib where
  initial: "reachable L empty_store"
| request: "reachable L s \<Longrightarrow> reachable L (store_after (handle L rq s))"

text \<open>The Access documents of a pair, and the two uniqueness invariants.\<close>

definition pair_rows :: "string \<Rightarrow> string \<Rightarrow> store \<Rightarrow> access_doc list" where
  "pair_rows p d s = filter (\<lambda>a. a_patientId a = p \<and> a_doctorId a = d) (access s)"

definition access_key :: "access_doc \<Rightarrow> string \<times> string" where
  "access_key a = (a_patientId a, a_doctorId a)"

definition access_unique :: "store \<Rightarrow> bool" where
  "access_unique s = distinct (map access_key (access s))"


section \<open>A concrete run\<close>

text \<open>
  One instance of the library parameters and a short history of the server, used to
  evaluate the model: an administrator, a doctor and a patient register, the
  administrator verifies the patient and then the doctor, and the patient grants the
  doctor access. The instance knows one query operator, \<open>{$ne: v}\<close> (the stored
  value differs from \<open>v\<close>), and refuses the unknown operator \<open>{$foo: v}\<close>.
\<close>

definition lib0 :: lib where
  "lib0 =
     \<lparr>zod_email = (\<lambda>s. CHR ''@'' \<in> set s),
      mongo_match = (\<lambda>q s. case q of
                              Some (JObj [(k, v)]) \<Rightarrow> k = ''$ne'' \<and> v \<noteq> JStr s
                            | _ \<Rightarrow> False),
      mongo_refuses = (\<lambda>q. case q of
                              Some (JObj [(k, v)]) \<Rightarrow> k = ''$foo''
                            | _ \<Rightarrow> False),
      object_id = (\<lambda>q. case q of
                          Some (JStr s) \<Rightarrow> if length s = 24 then Some s else None
                        | _ \<Rightarrow> None)\<rparr>"

definition env_at :: "string \<Rightarrow> nat \<Rightarrow> env" where
  "env_at oid t = \<lparr>insertedId = oid, date1 = t, date2 = t\<rparr>"

definition admin_id :: string where "admin_id = ''65a1f0c2e4b0a1b2c3d4e5f1''"
definition doctor_id :: string where "doctor_id = ''65a1f0c2e4b0a1b2c3d4e5f2''"
definition patient_id :: string where "patient_id = ''65a1f0c2e4b0a1b2c3d4e5f3''"

definition admin_body :: body where
  "admin_body =
     [''name'' \<mapsto> JStr ''Ada'', ''email'' \<mapsto> JStr ''ada@ett.org'',
      ''password'' \<mapsto> JStr ''admin-pw'', ''role'' \<mapsto> JStr ''admin'']"

definition doctor_body :: body where
  "doctor_body =
     [''name'' \<mapsto> JStr ''Dana'', ''email'' \<mapsto> JStr ''dana@ett.org'',
      ''password'' \<mapsto> JStr ''doctor-pw'', ''role'' \<mapsto> JStr ''doctor'',
      ''verified'' \<mapsto> JBool True, ''specialty'' \<mapsto> JStr ''cardiology'']"

definition patient_body :: body where
  "patient_body =
     [''name'' \<mapsto> JStr ''Pat'', ''email'' \<mapsto> JStr ''pat@ett.org'',
      ''password'' \<mapsto> JStr ''patient-pw'', ''role'' \<mapsto> JStr ''patient'']"

definition admin_su :: session_user where
  "admin_su =
     \<lparr>su_id = admin_id, su_email = ''ada@ett.org'', su_role = ''admin'',
      su_name = ''Ada'', su_verified = JBool True\<rparr>"

definition doctor_su :: session_user where
  "doctor_su =
     \<lparr>su_id = doctor_id, su_email = ''dana@ett.org'', su_role = ''doctor'',
      su_name = ''Dana'', su_verified = JBool True\<rparr>"

definition patient_su :: session_user where
  "patient_su =
     \<lparr>su_id = patient_id, su_email = ''pat@ett.org'', su_role = ''patient'',
      su_name = ''Pat'', su_verified = JBool True\<rparr>"

definition req :: "route \<Rightarrow> session_user option \<Rightarrow> body \<Rightarrow> env \<Rightarrow> request" where
  "req r sess b e =
     \<lparr>rq_route = r, rq_session = sess, rq_body = b, rq_file = None, rq_env = e\<rparr>"

definition st1 :: store where
  "st1 = store_after (handle lib0 (req Register None admin_body (env_at admin_id 1)) empty_store)"

definition st2 :: store where
  "st2 = store_after (handle lib0 (req Register None doctor_body (env_at doctor_id 2)) st1)"

definition st3 :: store where
  "st3 = store_after (handle lib0 (req Register None patient_body (env_at patient_id 3)) st2)"

definition st4 :: store where
  "st4 = store_after (handle lib0
           (req VerifyUser (Some admin_su)
              [''userId'' \<mapsto> JStr patient_id, ''verified'' \<mapsto> JBool True]
              (env_at [] 4)) st3)"

definition st5 :: store where
  "st5 = store_after (handle lib0
           (req VerifyUser (Some admin_su)
              [''userId'' \<mapsto> JStr doctor_id, ''verified'' \<mapsto> JBool True]
              (env_at [] 5)) st4)"

definition st6 :: store where
  "st6 = store_after (handle lib0
           (req GrantAccess (Some patient_su) [''doctorEmail'' \<mapsto> JStr ''dana@ett.org'']
              (env_at ''65a1f0c2e4b0a1b2c3d4e5f4'' 6)) st5)"

definition admin_user :: user where
  "admin_user =
     \<lparr>u_id = admin_id, u_name = ''Ada'', u_email = ''ada@ett.org'',
      u_password = ''admin-pw'', u_role = ''admin'', u_verified = JBool True,
      u_specialty = None, u_createdAt = 1\<rparr>"

definition doctor_user :: "bool \<Rightarrow> user" where
  "doctor_user v =
     \<lparr>u_id = doctor_id, u_name = ''Dana'', u_email = ''dana@ett.org'',
      u_password = ''doctor-pw'', u_role = ''doctor'', u_verified = JBool v,
      u_specialty = Some ''cardiology'', u_createdAt = 2\<rparr>"

definition patient_user :: "bool \<Rightarrow> user" where
  "patient_user v =
     \<lparr>u_id = patient_id, u_name = ''Pat'', u_email = ''pat@ett.org'',
      u_password = ''patient-pw'', u_role = ''patient'', u_verified = JBool v,
      u_specialty = None, u_createdAt = 3\<rparr>"

definition grant_doc :: access_doc where
  "grant_doc =
     \<lparr>a_id = ''65a1f0c2e4b0a1b2c3d4e5f4'', a_patientId = patient_id,
      a_doctorId = doctor_id, a_granted = True, a_grantedAt = 6\<rparr>"

text \<open>Requests used below: bodies that miss a required property, a record whose body names
  another user as patient, a grant by email, a grant and a login whose email is a query
  operator, and files for the upload middleware.\<close>

definition note_without_content :: body where
  "note_without_content =
     [''patientId'' \<mapsto> JStr patient_id, ''consultationType'' \<mapsto> JStr ''follow-up'']"

definition rq_note_without_content :: request where
  "rq_note_without_content =
     req PostNotes (Some doctor_su) note_without_content (env_at ''65a1f0c2e4b0a1b2c3d4e5f6'' 7)"



definition record_for_someone_else :: body where
  "record_for_someone_else =
     [''patientId'' \<mapsto> JStr doctor_id, ''filename'' \<mapsto> JStr ''scan.pdf'',
      ''filePath'' \<mapsto> JStr ''uploads/scan.pdf'', ''description'' \<mapsto> JStr ''scan'',
      ''fileType'' \<mapsto> JStr ''application/pdf'', ''fileSize'' \<mapsto> JNum 2048]"

definition rq_record_for_someone_else :: request where
  "rq_record_for_someone_else =
     req PostRecords (Some patient_su) record_for_someone_else
       (env_at ''65a1f0c2e4b0a1b2c3d4e5f8'' 7)"

definition script_file :: upfile where
  "script_file =
     \<lparr>f_originalname = ''run.sh'', f_mimetype = ''text/x-shellscript'',
      f_path = ''uploads/file-7-1.sh'', f_size = 120\<rparr>"

definition huge_pdf :: upfile where
  "huge_pdf =
     \<lparr>f_originalname = ''atlas.pdf'', f_mimetype = ''application/pdf'',
      f_path = ''uploads/file-7-2.pdf'', f_size = 10 * 1024 * 1024 + 1\<rparr>"










definition small_pdf :: upfile where
  "small_pdf =
     \<lparr>f_originalname = ''report.pdf'', f_mimetype = ''application/pdf'',
      f_path = ''uploads/file-7-3.pdf'', f_size = 4096\<rparr>"

definition rq_upload :: "upfile \<Rightarrow> request" where
  "rq_upload f =
     \<lparr>rq_route = Upload, rq_session = Some patient_su, rq_body = Map.empty,
      rq_file = Some f, rq_env = env_at ''65a1f0c2e4b0a1b2c3d4e5f9'' 7\<rparr>"

section \<open>Lists as collections\<close>

lemma set_deleteOne: "set (deleteOne P xs) \<subseteq> set xs"
  by (induction xs) auto

lemma distinct_map_deleteOne: "distinct (map f xs) \<Longrightarrow> distinct (map f (deleteOne P xs))"
proof (induction xs)
  case Nil
  then show ?case by simp
next
  case (Cons x xs)
  have "f x \<notin> f ` set (deleteOne P xs)"
    using Cons.prems set_deleteOne [of P xs] by auto
  with Cons show ?case by simp
qed

lemma deleteOne_drops_key:
  "distinct (map f xs) \<Longrightarrow> k \<notin> f ` set (deleteOne (\<lambda>x. f x = k) xs)"
  by (induction xs) auto

lemma deleteOne_no_match: "(\<And>x. x \<in> set xs \<Longrightarrow> \<not> P x) \<Longrightarrow> deleteOne P xs = xs"
  by (induction xs) auto


lemma find_None_iff_set: "(List.find P xs = None) = (\<forall>x\<in>set xs. \<not> P x)"
  by (induction xs) auto


section \<open>The two uniqueness invariants\<close>

lemma pair_is_key:
  "(\<lambda>a. a_patientId a = p \<and> a_doctorId a = d) = (\<lambda>a. access_key a = (p, d))"
  by (simp add: access_key_def fun_eq_iff)

lemma access_grantAccess:
  "access (snd (grantAccess e i s)) =
     deleteOne (\<lambda>a. access_key a = (ia_patientId i, ia_doctorId i)) (access s)
       @ [access_of i (insertedId e) (date1 e)]"
  by (simp add: grantAccess_def pair_is_key)

lemma access_key_access_of: "access_key (access_of i oid t) = (ia_patientId i, ia_doctorId i)"
  by (simp add: access_key_def access_of_def)

lemma access_unique_grantAccess:
  assumes "access_unique s"
  shows "access_unique (snd (grantAccess e i s))"
proof -
  let ?k = "(ia_patientId i, ia_doctorId i)"
  let ?xs = "deleteOne (\<lambda>a. access_key a = ?k) (access s)"
  have d: "distinct (map access_key (access s))"
    using assms by (simp add: access_unique_def)
  have 1: "distinct (map access_key ?xs)"
    using d by (rule distinct_map_deleteOne)
  have 2: "?k \<notin> access_key ` set ?xs"
    using d by (rule deleteOne_drops_key)
  show ?thesis
    unfolding access_unique_def access_grantAccess
    using 1 2 by (simp add: access_key_access_of)
qed

lemma access_unique_revokeAccess:
  "access_unique s \<Longrightarrow> access_unique (revokeAccess L p q s)"
  by (simp add: access_unique_def revokeAccess_def distinct_map_deleteOne)


lemma access_register: "access (snd (register L e b s)) = access s"
  by (simp add: register_def createUser_def split: option.splits)

lemma access_post_records: "access (snd (post_records e sess b s)) = access s"
  by (simp add: post_records_def createRecord_def split: option.splits)

lemma access_upload: "access (snd (upload e sess file b s)) = access s"
  by (simp add: upload_def createRecord_def split: option.splits)

lemma access_post_notes: "access (snd (post_notes e sess b s)) = access s"
  by (simp add: post_notes_def createNote_def split: option.splits)

lemma access_verify_user: "access (snd (verify_user L b s)) = access s"
  by (auto simp add: verify_user_def updateUserVerification_def split: option.splits)

lemma access_unique_grant_access:
  "access_unique s \<Longrightarrow> access_unique (snd (grant_access L e sess b s))"
  by (simp add: grant_access_def access_unique_grantAccess case_prod_beta split: option.splits)

lemma access_unique_revoke_access:
  "access_unique s \<Longrightarrow> access_unique (snd (revoke_access L sess b s))"
  by (simp add: revoke_access_def access_unique_revokeAccess split: option.splits)

lemma access_unique_cong: "access s' = access s \<Longrightarrow> access_unique s \<Longrightarrow> access_unique s'"
  by (simp add: access_unique_def)

lemma access_unique_handle:
  assumes "access_unique s"
  shows "access_unique (store_after (handle L rq s))"
proof (cases "rq_route rq")
  case Register
  then show ?thesis
    using assms access_unique_cong [OF access_register]
    by (simp add: handle_def store_after_def Let_def case_prod_beta)
next
  case PostRecords
  then show ?thesis
    using assms access_unique_cong [OF access_post_records]
    by (simp add: handle_def store_after_def Let_def case_prod_beta split: option.splits)
next
  case Upload
  then show ?thesis
    using assms access_unique_cong [OF access_upload]
    by (simp add: handle_def store_after_def Let_def case_prod_beta split: option.splits sum.splits)
next
  case GrantAccess
  then show ?thesis
    using assms access_unique_grant_access
    by (simp add: handle_def store_after_def Let_def case_prod_beta split: option.splits)
next
  case RevokeAccess
  then show ?thesis
    using assms access_unique_revoke_access
    by (simp add: handle_def store_after_def Let_def case_prod_beta split: option.splits)
next
  case PostNotes
  then show ?thesis
    using assms access_unique_cong [OF access_post_notes]
    by (simp add: handle_def store_after_def Let_def case_prod_beta split: option.splits)
next
  case VerifyUser
  then show ?thesis
    using assms access_unique_cong [OF access_verify_user]
    by (simp add: handle_def store_after_def Let_def case_prod_beta split: option.splits)
qed (use assms in \<open>simp_all add: handle_def store_after_def Let_def case_prod_beta split: option.splits\<close>)

lemma reachable_access_unique: "reachable L s \<Longrightarrow> access_unique s"
proof (induction rule: reachable.induct)
  case initial
  show ?case by (simp add: access_unique_def empty_store_def)
next
  case (request s rq)
  then show ?case by (simp add: access_unique_handle)
qed

section \<open>Evaluating the concrete run\<close>

lemma ids_distinct [simp]:
  "admin_id \<noteq> doctor_id" "doctor_id \<noteq> admin_id" "admin_id \<noteq> patient_id" "patient_id \<noteq> admin_id"
  "doctor_id \<noteq> patient_id" "patient_id \<noteq> doctor_id"
  by (simp_all add: admin_id_def doctor_id_def patient_id_def)

lemma ids_length [simp]: "length admin_id = 24" "length doctor_id = 24" "length patient_id = 24"
  by (simp_all add: admin_id_def doctor_id_def patient_id_def)

lemma st1_eval: "st1 = \<lparr>users = [admin_user], records = [], access = [], notes = []\<rparr>"
  by (simp add: st1_def store_after_def handle_def req_def register_def insertUserSchema_def
      admin_body_def lib0_def getUserByEmail_def empty_store_def createUser_def user_doc_def
      env_at_def admin_user_def)

lemma st2_eval:
  "st2 = \<lparr>users = [admin_user, doctor_user False], records = [], access = [], notes = []\<rparr>"
  by (simp add: st2_def st1_eval store_after_def handle_def req_def register_def
      insertUserSchema_def doctor_body_def lib0_def getUserByEmail_def createUser_def
      user_doc_def env_at_def admin_user_def doctor_user_def)

lemma st3_eval:
  "st3 = \<lparr>users = [admin_user, doctor_user False, patient_user False],
          records = [], access = [], notes = []\<rparr>"
  by (simp add: st3_def st2_eval store_after_def handle_def req_def register_def
      insertUserSchema_def patient_body_def lib0_def getUserByEmail_def createUser_def
      user_doc_def env_at_def admin_user_def doctor_user_def patient_user_def)

lemma st4_eval:
  "st4 = \<lparr>users = [admin_user, doctor_user False, patient_user True],
          records = [], access = [], notes = []\<rparr>"
  by (simp add: st4_def st3_eval store_after_def handle_def req_def verify_user_def
      updateUserVerification_def lib0_def requireAuth_def requireRole_def admin_su_def
      admin_user_def doctor_user_def patient_user_def)

lemma st5_eval:
  "st5 = \<lparr>users = [admin_user, doctor_user True, patient_user True],
          records = [], access = [], notes = []\<rparr>"
  by (simp add: st5_def st4_eval store_after_def handle_def req_def verify_user_def
      updateUserVerification_def lib0_def requireAuth_def requireRole_def admin_su_def
      admin_user_def doctor_user_def patient_user_def)

lemma st6_eval:
  "st6 = \<lparr>users = [admin_user, doctor_user True, patient_user True],
          records = [], access = [grant_doc], notes = []\<rparr>"
  by (simp add: st6_def st5_eval store_after_def handle_def req_def grant_access_def
      getUserByEmail_def insertAccessSchema_def grantAccess_def access_of_def
      lib0_def requireAuth_def requireRole_def patient_su_def env_at_def grant_doc_def
      admin_user_def doctor_user_def patient_user_def)

lemma reachable_st6: "reachable lib0 st6"
  unfolding st6_def st5_def st4_def st3_def st2_def st1_def
  by (intro reachable.intros)

lemma reachable_st5: "reachable lib0 st5"
  unfolding st5_def st4_def st3_def st2_def st1_def
  by (intro reachable.intros)


section \<open>Rows of a pair\<close>

lemma filter_key_le_one:
  "distinct (map f xs) \<Longrightarrow> length (filter (\<lambda>x. f x = k) xs) \<le> 1"
proof (induction xs)
  case Nil
  then show ?case by simp
next
  case (Cons x xs)
  show ?case
  proof (cases "f x = k")
    case True
    from Cons.prems have "f x \<notin> f ` set xs" by simp
    with True have "\<forall>y\<in>set xs. f y \<noteq> k" by blast
    then have "filter (\<lambda>x. f x = k) xs = []" by (simp add: filter_empty_conv)
    with True show ?thesis by simp
  next
    case False
    with Cons show ?thesis by simp
  qed
qed

lemma filter_deleteOne_nil: "length (filter P xs) \<le> 1 \<Longrightarrow> filter P (deleteOne P xs) = []"
  by (induction xs) (auto split: if_splits)

lemma pair_rows_le_one: "access_unique s \<Longrightarrow> length (pair_rows p d s) \<le> 1"
  unfolding access_unique_def pair_rows_def pair_is_key
  by (rule filter_key_le_one)

lemma pair_rows_grantAccess:
  assumes "access_unique s"
  shows "pair_rows (ia_patientId i) (ia_doctorId i) (snd (grantAccess e i s))
           = [access_of i (insertedId e) (date1 e)]"
proof -
  let ?K = "\<lambda>a. access_key a = (ia_patientId i, ia_doctorId i)"
  have "length (filter ?K (access s)) \<le> 1"
    using pair_rows_le_one [OF assms, of "ia_patientId i" "ia_doctorId i"]
    by (simp add: pair_rows_def pair_is_key)
  then have "filter ?K (deleteOne ?K (access s)) = []"
    by (rule filter_deleteOne_nil)
  then show ?thesis
    by (simp add: pair_rows_def pair_is_key access_grantAccess access_key_access_of)
qed

lemma users_grantAccess: "users (snd (grantAccess e i s)) = users s"
  by (simp add: grantAccess_def)

lemma getUserByEmail_users: "users s' = users s \<Longrightarrow> getUserByEmail L s' q = getUserByEmail L s q"
  by (simp add: getUserByEmail_def)

lemma insertAccessSchema_built:
  "insertAccessSchema [''patientId'' \<mapsto> JStr p, ''doctorId'' \<mapsto> JStr d, ''granted'' \<mapsto> JBool True]
     = Some \<lparr>ia_patientId = p, ia_doctorId = d, ia_granted = True\<rparr>"
  by (simp add: insertAccessSchema_def)

lemma grant_access_ok:
  assumes "sess = Some su" "getUserByEmail L s (b ''doctorEmail'') = Some doctor"
    "u_role doctor = ''doctor''" "truthy (Some (u_verified doctor))"
    "\<not> filter_refused L (b ''doctorEmail'')"
  shows "grant_access L e sess b s =
           (respond 200 ''Access granted successfully''
              (AccessDoc (fst (grantAccess e
                 \<lparr>ia_patientId = su_id su, ia_doctorId = u_id doctor, ia_granted = True\<rparr> s))),
            snd (grantAccess e
                 \<lparr>ia_patientId = su_id su, ia_doctorId = u_id doctor, ia_granted = True\<rparr> s))"
  using assms by (simp add: grant_access_def insertAccessSchema_built case_prod_beta)

lemma grant_access_200:
  assumes "status (fst (grant_access L e sess b s)) = 200"
  shows "\<exists>su doctor. sess = Some su \<and> getUserByEmail L s (b ''doctorEmail'') = Some doctor
           \<and> u_role doctor = ''doctor'' \<and> truthy (Some (u_verified doctor))
           \<and> \<not> filter_refused L (b ''doctorEmail'')"
  using assms
  by (auto simp add: grant_access_def respond_def split: option.splits if_splits)

section \<open>C1: one Access document per pair\<close>

text \<open>
  Claim C1. In every reachable store there is at most one Access document per
  (patientId, doctorId) pair. \<open>grantAccess\<close> deletes an existing document of the
  pair and then inserts one, so after granting the same pair twice in succession the
  pair has exactly one document, the one of the second grant; it is active when the
  grant says \<open>granted\<close>, as the route \<open>POST /api/grant-access\<close> always does:
  two such requests in a row that succeed leave exactly one active row for the pair.
\<close>

theorem grantAccess_one_row_per_pair:
  assumes "reachable L s"
  shows "length (pair_rows p d s) \<le> 1
     \<and> access (snd (grantAccess e i s)) =
         deleteOne (\<lambda>a. a_patientId a = ia_patientId i \<and> a_doctorId a = ia_doctorId i) (access s)
           @ [access_of i (insertedId e) (date1 e)]
     \<and> pair_rows (ia_patientId i) (ia_doctorId i) (snd (grantAccess e' i (snd (grantAccess e i s))))
         = [access_of i (insertedId e') (date1 e')]
     \<and> a_granted (access_of i (insertedId e') (date1 e')) = ia_granted i
     \<and> (status (fst (grant_access L e sess b s)) = 200 \<longrightarrow>
          (\<exists>su doctor. sess = Some su \<and> getUserByEmail L s (b ''doctorEmail'') = Some doctor
             \<and> filter a_granted
                 (pair_rows (su_id su) (u_id doctor)
                    (snd (grant_access L e' sess b (snd (grant_access L e sess b s)))))
               = [\<lparr>a_id = insertedId e', a_patientId = su_id su, a_doctorId = u_id doctor,
                    a_granted = True, a_grantedAt = date1 e'\<rparr>]))"
proof -
  have u: "access_unique s" using assms by (rule reachable_access_unique)
  have 1: "length (pair_rows p d s) \<le> 1" using u by (rule pair_rows_le_one)
  have 2: "access (snd (grantAccess e i s)) =
         deleteOne (\<lambda>a. a_patientId a = ia_patientId i \<and> a_doctorId a = ia_doctorId i) (access s)
           @ [access_of i (insertedId e) (date1 e)]"
    by (simp add: grantAccess_def)
  have twice: "pair_rows (ia_patientId j) (ia_doctorId j) (snd (grantAccess e' j (snd (grantAccess e j s))))
         = [access_of j (insertedId e') (date1 e')]" for j
    using access_unique_grantAccess [OF u] by (rule pair_rows_grantAccess)
  have 4: "a_granted (access_of i (insertedId e') (date1 e')) = ia_granted i"
    by (simp add: access_of_def)
  have 5: "\<exists>su doctor. sess = Some su \<and> getUserByEmail L s (b ''doctorEmail'') = Some doctor
             \<and> filter a_granted
                 (pair_rows (su_id su) (u_id doctor)
                    (snd (grant_access L e' sess b (snd (grant_access L e sess b s)))))
               = [\<lparr>a_id = insertedId e', a_patientId = su_id su, a_doctorId = u_id doctor,
                    a_granted = True, a_grantedAt = date1 e'\<rparr>]"
    if ok: "status (fst (grant_access L e sess b s)) = 200"
  proof -
    from grant_access_200 [OF ok] obtain su doctor where
      h: "sess = Some su" "getUserByEmail L s (b ''doctorEmail'') = Some doctor"
         "u_role doctor = ''doctor''" "truthy (Some (u_verified doctor))"
         "\<not> filter_refused L (b ''doctorEmail'')"
      by blast
    let ?i = "\<lparr>ia_patientId = su_id su, ia_doctorId = u_id doctor, ia_granted = True\<rparr>"
    let ?s1 = "snd (grantAccess e ?i s)"
    have s1: "snd (grant_access L e sess b s) = ?s1"
      using grant_access_ok [where b = b and e = e, OF h] by simp
    have "getUserByEmail L ?s1 (b ''doctorEmail'') = Some doctor"
      using h(2) getUserByEmail_users [OF users_grantAccess] by simp
    then have s2: "snd (grant_access L e' sess b ?s1) = snd (grantAccess e' ?i ?s1)"
      using grant_access_ok [where b = b and e = e' and s = ?s1, OF h(1) _ h(3) h(4) h(5)] by simp
    have "pair_rows (su_id su) (u_id doctor) (snd (grantAccess e' ?i ?s1))
            = [access_of ?i (insertedId e') (date1 e')]"
      using twice [of ?i] by simp
    then show ?thesis
      using h(1,2) s1 s2 by (simp add: access_of_def)
  qed
  show ?thesis
  proof (intro conjI impI)
    show "length (pair_rows p d s) \<le> 1" by (rule 1)
    show "access (snd (grantAccess e i s)) =
         deleteOne (\<lambda>a. a_patientId a = ia_patientId i \<and> a_doctorId a = ia_doctorId i) (access s)
           @ [access_of i (insertedId e) (date1 e)]" by (rule 2)
    show "pair_rows (ia_patientId i) (ia_doctorId i) (snd (grantAccess e' i (snd (grantAccess e i s))))
         = [access_of i (insertedId e') (date1 e')]" by (rule twice)
    show "a_granted (access_of i (insertedId e') (date1 e')) = ia_granted i" by (rule 4)
  qed (rule 5)
qed

theorem grantAccess_one_row_per_pair_witness:
  "reachable lib0 st5
   \<and> pair_rows patient_id doctor_id st5 = []
   \<and> pair_rows patient_id doctor_id
        (snd (grantAccess (env_at ''65a1f0c2e4b0a1b2c3d4e5f5'' 7)
               \<lparr>ia_patientId = patient_id, ia_doctorId = doctor_id, ia_granted = True\<rparr>
               (snd (grantAccess (env_at ''65a1f0c2e4b0a1b2c3d4e5f4'' 6)
                      \<lparr>ia_patientId = patient_id, ia_doctorId = doctor_id, ia_granted = True\<rparr>
                      st5))))
       = [\<lparr>a_id = ''65a1f0c2e4b0a1b2c3d4e5f5'', a_patientId = patient_id, a_doctorId = doctor_id,
            a_granted = True, a_grantedAt = 7\<rparr>]
   \<and> status (fst (grant_access lib0 (env_at ''65a1f0c2e4b0a1b2c3d4e5f4'' 6) (Some patient_su)
                    [''doctorEmail'' \<mapsto> JStr ''dana@ett.org''] st5)) = 200
   \<and> filter a_granted
        (pair_rows patient_id doctor_id
           (snd (grant_access lib0 (env_at ''65a1f0c2e4b0a1b2c3d4e5f5'' 7) (Some patient_su)
                   [''doctorEmail'' \<mapsto> JStr ''dana@ett.org'']
                   (snd (grant_access lib0 (env_at ''65a1f0c2e4b0a1b2c3d4e5f4'' 6) (Some patient_su)
                           [''doctorEmail'' \<mapsto> JStr ''dana@ett.org''] st5)))))
       = [\<lparr>a_id = ''65a1f0c2e4b0a1b2c3d4e5f5'', a_patientId = patient_id, a_doctorId = doctor_id,
            a_granted = True, a_grantedAt = 7\<rparr>]"
proof -
  note t = grantAccess_one_row_per_pair [OF reachable_st5, of patient_id doctor_id
      "env_at ''65a1f0c2e4b0a1b2c3d4e5f4'' 6"
      "\<lparr>ia_patientId = patient_id, ia_doctorId = doctor_id, ia_granted = True\<rparr>"
      "env_at ''65a1f0c2e4b0a1b2c3d4e5f5'' 7" "Some patient_su"
      "[''doctorEmail'' \<mapsto> JStr ''dana@ett.org'']"]
  have a: "pair_rows patient_id doctor_id st5 = []"
    by (simp add: st5_eval pair_rows_def)
  from t have b: "pair_rows patient_id doctor_id
        (snd (grantAccess (env_at ''65a1f0c2e4b0a1b2c3d4e5f5'' 7)
               \<lparr>ia_patientId = patient_id, ia_doctorId = doctor_id, ia_granted = True\<rparr>
               (snd (grantAccess (env_at ''65a1f0c2e4b0a1b2c3d4e5f4'' 6)
                      \<lparr>ia_patientId = patient_id, ia_doctorId = doctor_id, ia_granted = True\<rparr>
                      st5))))
       = [\<lparr>a_id = ''65a1f0c2e4b0a1b2c3d4e5f5'', a_patientId = patient_id, a_doctorId = doctor_id,
            a_granted = True, a_grantedAt = 7\<rparr>]"
    by (simp add: access_of_def env_at_def)
  have g: "getUserByEmail lib0 st5 (Some (JStr ''dana@ett.org'')) = Some (doctor_user True)"
    by (simp add: st5_eval getUserByEmail_def admin_user_def doctor_user_def)
  have c: "status (fst (grant_access lib0 (env_at ''65a1f0c2e4b0a1b2c3d4e5f4'' 6) (Some patient_su)
                    [''doctorEmail'' \<mapsto> JStr ''dana@ett.org''] st5)) = 200"
    by (simp add: grant_access_def g doctor_user_def insertAccessSchema_built case_prod_beta respond_def)
  from t c obtain su doctor where
    h: "Some patient_su = Some su"
       "getUserByEmail lib0 st5 ([''doctorEmail'' \<mapsto> JStr ''dana@ett.org''] ''doctorEmail'') = Some doctor"
       "filter a_granted
          (pair_rows (su_id su) (u_id doctor)
             (snd (grant_access lib0 (env_at ''65a1f0c2e4b0a1b2c3d4e5f5'' 7) (Some patient_su)
                     [''doctorEmail'' \<mapsto> JStr ''dana@ett.org'']
                     (snd (grant_access lib0 (env_at ''65a1f0c2e4b0a1b2c3d4e5f4'' 6) (Some patient_su)
                             [''doctorEmail'' \<mapsto> JStr ''dana@ett.org''] st5)))))
        = [\<lparr>a_id = insertedId (env_at ''65a1f0c2e4b0a1b2c3d4e5f5'' 7), a_patientId = su_id su,
             a_doctorId = u_id doctor, a_granted = True,
             a_grantedAt = date1 (env_at ''65a1f0c2e4b0a1b2c3d4e5f5'' 7)\<rparr>]"
    by blast
  from h(1) have su: "su_id su = patient_id" by (auto simp add: patient_su_def)
  from h(2) g have d: "u_id doctor = doctor_id" by (auto simp add: doctor_user_def)
  from h(3) have e: "filter a_granted
        (pair_rows patient_id doctor_id
           (snd (grant_access lib0 (env_at ''65a1f0c2e4b0a1b2c3d4e5f5'' 7) (Some patient_su)
                   [''doctorEmail'' \<mapsto> JStr ''dana@ett.org'']
                   (snd (grant_access lib0 (env_at ''65a1f0c2e4b0a1b2c3d4e5f4'' 6) (Some patient_su)
                           [''doctorEmail'' \<mapsto> JStr ''dana@ett.org''] st5)))))
       = [\<lparr>a_id = ''65a1f0c2e4b0a1b2c3d4e5f5'', a_patientId = patient_id, a_doctorId = doctor_id,
            a_granted = True, a_grantedAt = 7\<rparr>]"
    by (simp add: su d env_at_def)
  show ?thesis using reachable_st5 a b c e by simp
qed

section \<open>Users found by email\<close>


















section \<open>C5: login of unverified accounts and of wrong credentials\<close>




section \<open>Revoking\<close>

lemma revoke_matches_pair:
  "(\<lambda>a. a_patientId a = p \<and> field_matches L (Some (JStr d)) (a_doctorId a))
     = (\<lambda>a. a_patientId a = p \<and> a_doctorId a = d)"
  by (auto simp add: fun_eq_iff)

lemma revokeAccess_str:
  "revokeAccess L p (Some (JStr d)) s
     = s\<lparr>access := deleteOne (\<lambda>a. a_patientId a = p \<and> a_doctorId a = d) (access s)\<rparr>"
  unfolding revokeAccess_def revoke_matches_pair by (rule refl)

lemma access_revokeAccess_str:
  "access (revokeAccess L p (Some (JStr d)) s)
     = deleteOne (\<lambda>a. a_patientId a = p \<and> a_doctorId a = d) (access s)"
  by (simp add: revokeAccess_str)

lemma pair_rows_revokeAccess:
  "length (pair_rows p d s) \<le> 1 \<Longrightarrow> pair_rows p d (revokeAccess L p (Some (JStr d)) s) = []"
  unfolding pair_rows_def access_revokeAccess_str by (rule filter_deleteOne_nil)

lemma checkAccess_no_rows: "pair_rows p d s = [] \<Longrightarrow> \<not> checkAccess s p d"
  by (simp add: checkAccess_def pair_rows_def find_None_iff_set filter_empty_conv)

lemma revokeAccess_no_rows: "pair_rows p d s = [] \<Longrightarrow> revokeAccess L p (Some (JStr d)) s = s"
proof -
  assume "pair_rows p d s = []"
  then have "\<And>a. a \<in> set (access s) \<Longrightarrow> \<not> (a_patientId a = p \<and> a_doctorId a = d)"
    by (simp add: pair_rows_def filter_empty_conv)
  then have "deleteOne (\<lambda>a. a_patientId a = p \<and> a_doctorId a = d) (access s) = access s"
    by (rule deleteOne_no_match)
  then show ?thesis by (simp add: revokeAccess_str)
qed

section \<open>C4: revoking removes the doctor's view\<close>

text \<open>
  Claim C4. In a store with at most one Access document per pair (every reachable store,
  by \<open>reachable_access_unique\<close>), once \<open>revokeAccess(patientId, doctorId)\<close> has
  run \<open>checkAccess(patientId, doctorId)\<close> is false, so the doctor's next
  \<open>GET /api/records/:patientId\<close> for that patient is answered 403.
\<close>

theorem revokeAccess_removes_visibility:
  assumes "access_unique s"
  shows "\<not> checkAccess (revokeAccess L p (Some (JStr d)) s) p d
     \<and> (rq_route rq = GetPatientRecords p \<and> rq_session rq = Some su
          \<and> su_role su = ''doctor'' \<and> su_id su = d
        \<longrightarrow> handle L rq (revokeAccess L p (Some (JStr d)) s)
              = (Reply (respond 403 ''Access denied to patient records'' NoPayload), Some su,
                 revokeAccess L p (Some (JStr d)) s))"
proof -
  have "pair_rows p d (revokeAccess L p (Some (JStr d)) s) = []"
    using pair_rows_le_one [OF assms] by (rule pair_rows_revokeAccess)
  then have n: "\<not> checkAccess (revokeAccess L p (Some (JStr d)) s) p d"
    by (rule checkAccess_no_rows)
  then show ?thesis
    by (simp add: handle_def Let_def requireAuth_def requireRole_def get_patient_records_def)
qed

theorem revokeAccess_removes_visibility_witness:
  "access_unique st6 \<and> checkAccess st6 patient_id doctor_id
   \<and> \<not> checkAccess (revokeAccess lib0 patient_id (Some (JStr doctor_id)) st6) patient_id doctor_id
   \<and> handle lib0 (req (GetPatientRecords patient_id) (Some doctor_su) Map.empty (env_at [] 8))
        (revokeAccess lib0 patient_id (Some (JStr doctor_id)) st6)
      = (Reply (respond 403 ''Access denied to patient records'' NoPayload), Some doctor_su,
         revokeAccess lib0 patient_id (Some (JStr doctor_id)) st6)"
proof -
  have u: "access_unique st6"
    by (simp add: st6_eval access_unique_def)
  have c: "checkAccess st6 patient_id doctor_id"
    by (simp add: st6_eval checkAccess_def grant_doc_def)
  note t = revokeAccess_removes_visibility [OF u, where L = lib0 and p = patient_id
      and d = doctor_id and su = doctor_su
      and rq = "req (GetPatientRecords patient_id) (Some doctor_su) Map.empty (env_at [] 8)"]
  have r: "rq_route (req (GetPatientRecords patient_id) (Some doctor_su) Map.empty (env_at [] 8))
             = GetPatientRecords patient_id
           \<and> rq_session (req (GetPatientRecords patient_id) (Some doctor_su) Map.empty (env_at [] 8))
             = Some doctor_su
           \<and> su_role doctor_su = ''doctor'' \<and> su_id doctor_su = doctor_id"
    by (simp add: req_def doctor_su_def)
  show ?thesis using u c t r by blast
qed

section \<open>C10: revoking is idempotent\<close>

text \<open>
  Claim C10. When the pair (patientId, doctorId) has no Access document,
  \<open>revokeAccess\<close> leaves the store as it is and \<open>POST /api/revoke-access\<close> still
  answers 200 with the message \<open>Access revoked successfully\<close>. Revoking twice is the
  same as revoking once whenever the pair has at most one document: when it has none, and
  in every reachable store (\<open>reachable_access_unique\<close>, \<open>pair_rows_le_one\<close>),
  where the first call removes the only document of the pair and the second finds none.
\<close>

theorem revokeAccess_idempotent:
  "(pair_rows p d s = [] \<longrightarrow> revokeAccess L p (Some (JStr d)) s = s)
   \<and> (pair_rows p d s = [] \<and> rq_route rq = RevokeAccess \<and> rq_session rq = Some su
        \<and> su_role su = ''patient'' \<and> su_id su = p \<and> rq_body rq ''doctorId'' = Some (JStr d)
      \<longrightarrow> handle L rq s
            = (Reply (respond 200 ''Access revoked successfully'' NoPayload), Some su, s))
   \<and> (length (pair_rows p d s) \<le> 1
      \<longrightarrow> revokeAccess L p (Some (JStr d)) (revokeAccess L p (Some (JStr d)) s)
            = revokeAccess L p (Some (JStr d)) s)"
proof (intro conjI impI)
  assume "pair_rows p d s = []"
  then show "revokeAccess L p (Some (JStr d)) s = s" by (rule revokeAccess_no_rows)
next
  assume h: "pair_rows p d s = [] \<and> rq_route rq = RevokeAccess \<and> rq_session rq = Some su
        \<and> su_role su = ''patient'' \<and> su_id su = p \<and> rq_body rq ''doctorId'' = Some (JStr d)"
  then have "revokeAccess L (su_id su) (Some (JStr d)) s = s"
    using revokeAccess_no_rows [of p d s L] by simp
  with h show "handle L rq s
            = (Reply (respond 200 ''Access revoked successfully'' NoPayload), Some su, s)"
    by (simp add: handle_def Let_def requireAuth_def requireRole_def revoke_access_def)
next
  assume "length (pair_rows p d s) \<le> 1"
  then have "pair_rows p d (revokeAccess L p (Some (JStr d)) s) = []"
    by (rule pair_rows_revokeAccess)
  then show "revokeAccess L p (Some (JStr d)) (revokeAccess L p (Some (JStr d)) s)
            = revokeAccess L p (Some (JStr d)) s"
    by (rule revokeAccess_no_rows)
qed

theorem revokeAccess_idempotent_witness:
  "pair_rows patient_id doctor_id st5 = [] \<and> access_unique st6
   \<and> revokeAccess lib0 patient_id (Some (JStr doctor_id)) st5 = st5
   \<and> handle lib0 (req RevokeAccess (Some patient_su) [''doctorId'' \<mapsto> JStr doctor_id] (env_at [] 9)) st5
      = (Reply (respond 200 ''Access revoked successfully'' NoPayload), Some patient_su, st5)
   \<and> revokeAccess lib0 patient_id (Some (JStr doctor_id)) st6 = st5
   \<and> revokeAccess lib0 patient_id (Some (JStr doctor_id))
        (revokeAccess lib0 patient_id (Some (JStr doctor_id)) st6) = st5"
proof -
  have e: "pair_rows patient_id doctor_id st5 = []"
    by (simp add: st5_eval pair_rows_def)
  have u: "access_unique st6"
    by (simp add: st6_eval access_unique_def)
  have o: "revokeAccess lib0 patient_id (Some (JStr doctor_id)) st6 = st5"
    by (simp add: st6_eval st5_eval revokeAccess_str grant_doc_def)
  have r: "rq_route (req RevokeAccess (Some patient_su) [''doctorId'' \<mapsto> JStr doctor_id] (env_at [] 9))
             = RevokeAccess
         \<and> rq_session (req RevokeAccess (Some patient_su) [''doctorId'' \<mapsto> JStr doctor_id] (env_at [] 9))
             = Some patient_su
         \<and> su_role patient_su = ''patient'' \<and> su_id patient_su = patient_id
         \<and> rq_body (req RevokeAccess (Some patient_su) [''doctorId'' \<mapsto> JStr doctor_id] (env_at [] 9))
              ''doctorId'' = Some (JStr doctor_id)"
    by (simp add: req_def patient_su_def)
  note t5 = revokeAccess_idempotent [where p = patient_id and d = doctor_id and s = st5
      and rq = "req RevokeAccess (Some patient_su) [''doctorId'' \<mapsto> JStr doctor_id] (env_at [] 9)"
      and su = patient_su and L = lib0]
  note t6 = revokeAccess_idempotent [where p = patient_id and d = doctor_id and s = st6 and L = lib0]
  from t6 pair_rows_le_one [OF u, of patient_id doctor_id]
  have "revokeAccess lib0 patient_id (Some (JStr doctor_id))
        (revokeAccess lib0 patient_id (Some (JStr doctor_id)) st6)
      = revokeAccess lib0 patient_id (Some (JStr doctor_id)) st6"
    by blast
  with o have tw: "revokeAccess lib0 patient_id (Some (JStr doctor_id))
        (revokeAccess lib0 patient_id (Some (JStr doctor_id)) st6) = st5"
    by simp
  show ?thesis using e u o r t5 tw by blast
qed

section \<open>C9: granting access to someone who is not a verified doctor\<close>




section \<open>Notes and grants\<close>

lemma insertNoteSchema_patientId:
  "insertNoteSchema b = Some n \<Longrightarrow> z_string (b ''patientId'') = Some (in_patientId n)"
  by (auto simp add: insertNoteSchema_def split: option.splits)

lemma checkAccess_no_active:
  "\<forall>a\<in>set (access s). \<not> (a_patientId a = p \<and> a_doctorId a = d \<and> a_granted a)
     \<Longrightarrow> \<not> checkAccess s p d"
  by (simp add: checkAccess_def find_None_iff_set)

lemma post_notes_without_grant:
  assumes "\<not> checkAccess s p (su_id su)" and "b ''patientId'' = Some (JStr p)"
  shows "post_notes e (Some su) b s =
           (case insertNoteSchema (b(''doctorId'' \<mapsto> JStr (su_id su))) of
              None \<Rightarrow> (respond 500 ''Failed to add note'' (ErrorOf ZodError), s)
            | Some n \<Rightarrow> (respond 403 ''Access denied to patient records'' NoPayload, s))"
proof (cases "insertNoteSchema (b(''doctorId'' \<mapsto> JStr (su_id su)))")
  case None
  then show ?thesis by (simp add: post_notes_def)
next
  case (Some n)
  from insertNoteSchema_patientId [OF Some] assms(2) have "in_patientId n = p" by simp
  with Some assms(1) show ?thesis by (simp add: post_notes_def)
qed

section \<open>C3: a doctor without an active grant\<close>

text \<open>
  Claim C3, as amended. For an authenticated doctor and a patient for whom the doctor has
  no Access document with \<open>granted = true\<close>: \<open>GET /api/records/:patientId\<close> is
  answered 403 and carries no records; \<open>POST /api/notes\<close> naming that patient never
  persists a Note, and is answered 403 when the body (with the doctor's id put in)
  satisfies the insert schema of notes, and 500 when it does not, because the handler
  validates the body before it looks the grant up.
\<close>

theorem doctor_without_grant_denied:
  assumes "rq_session rq = Some su" and "su_role su = ''doctor''"
    and "\<forall>a\<in>set (access s). \<not> (a_patientId a = p \<and> a_doctorId a = su_id su \<and> a_granted a)"
  shows "(rq_route rq = GetPatientRecords p \<longrightarrow>
            handle L rq s
              = (Reply (respond 403 ''Access denied to patient records'' NoPayload), Some su, s))
     \<and> (rq_route rq = PostNotes \<and> rq_body rq ''patientId'' = Some (JStr p) \<longrightarrow>
            store_after (handle L rq s) = s
          \<and> (insertNoteSchema ((rq_body rq)(''doctorId'' \<mapsto> JStr (su_id su))) \<noteq> None \<longrightarrow>
               fst (handle L rq s)
                 = Reply (respond 403 ''Access denied to patient records'' NoPayload))
          \<and> (insertNoteSchema ((rq_body rq)(''doctorId'' \<mapsto> JStr (su_id su))) = None \<longrightarrow>
               fst (handle L rq s)
                 = Reply (respond 500 ''Failed to add note'' (ErrorOf ZodError))))"
proof -
  have n: "\<not> checkAccess s p (su_id su)"
    using assms(3) by (rule checkAccess_no_active)
  have g: "rq_route rq = GetPatientRecords p \<Longrightarrow> handle L rq s
              = (Reply (respond 403 ''Access denied to patient records'' NoPayload), Some su, s)"
    using assms(1,2) n
    by (simp add: handle_def Let_def requireAuth_def requireRole_def get_patient_records_def)
  have w: "handle L rq s =
            (Reply (fst (post_notes (rq_env rq) (Some su) (rq_body rq) s)), Some su,
             snd (post_notes (rq_env rq) (Some su) (rq_body rq) s))"
    if "rq_route rq = PostNotes"
    using that assms(1,2)
    by (simp add: handle_def Let_def requireAuth_def requireRole_def case_prod_beta)
  have q: "store_after (handle L rq s) = s
          \<and> (insertNoteSchema ((rq_body rq)(''doctorId'' \<mapsto> JStr (su_id su))) \<noteq> None \<longrightarrow>
               fst (handle L rq s)
                 = Reply (respond 403 ''Access denied to patient records'' NoPayload))
          \<and> (insertNoteSchema ((rq_body rq)(''doctorId'' \<mapsto> JStr (su_id su))) = None \<longrightarrow>
               fst (handle L rq s)
                 = Reply (respond 500 ''Failed to add note'' (ErrorOf ZodError)))"
    if r: "rq_route rq = PostNotes" and b: "rq_body rq ''patientId'' = Some (JStr p)"
    using post_notes_without_grant [where b = "rq_body rq" and e = "rq_env rq", OF n b] w [OF r]
    by (auto simp add: store_after_def split: option.splits)
  from g q show ?thesis by blast
qed

theorem doctor_without_grant_denied_witness:
  "rq_session rq_note_without_content = Some doctor_su \<and> su_role doctor_su = ''doctor''
   \<and> access st5 = []
   \<and> handle lib0 (req (GetPatientRecords patient_id) (Some doctor_su) Map.empty (env_at [] 7)) st5
       = (Reply (respond 403 ''Access denied to patient records'' NoPayload), Some doctor_su, st5)
   \<and> store_after (handle lib0 rq_note_without_content st5) = st5
   \<and> fst (handle lib0 rq_note_without_content st5)
       = Reply (respond 500 ''Failed to add note'' (ErrorOf ZodError))
   \<and> fst (handle lib0
            (req PostNotes (Some doctor_su) (note_without_content(''content'' \<mapsto> JStr ''rest''))
               (env_at ''65a1f0c2e4b0a1b2c3d4e5f6'' 7)) st5)
       = Reply (respond 403 ''Access denied to patient records'' NoPayload)"
proof -
  have a: "access st5 = []" by (simp add: st5_eval)
  then have h: "\<forall>a\<in>set (access st5).
      \<not> (a_patientId a = patient_id \<and> a_doctorId a = su_id doctor_su \<and> a_granted a)"
    by simp
  have d: "su_role doctor_su = ''doctor''" by (simp add: doctor_su_def)
  have s1: "rq_session rq_note_without_content = Some doctor_su"
    by (simp add: rq_note_without_content_def req_def)
  have 1: "handle lib0 (req (GetPatientRecords patient_id) (Some doctor_su) Map.empty (env_at [] 7)) st5
       = (Reply (respond 403 ''Access denied to patient records'' NoPayload), Some doctor_su, st5)"
    using doctor_without_grant_denied [where rq = "req (GetPatientRecords patient_id) (Some doctor_su) Map.empty (env_at [] 7)"
        and su = doctor_su and s = st5 and p = patient_id and L = lib0, OF _ d h]
    by (simp add: req_def)
  have 2: "store_after (handle lib0 rq_note_without_content st5) = st5
       \<and> fst (handle lib0 rq_note_without_content st5)
            = Reply (respond 500 ''Failed to add note'' (ErrorOf ZodError))"
    using doctor_without_grant_denied [where rq = rq_note_without_content
        and su = doctor_su and s = st5 and p = patient_id and L = lib0, OF s1 d h]
    by (simp add: rq_note_without_content_def req_def note_without_content_def insertNoteSchema_def)
  have 3: "fst (handle lib0
            (req PostNotes (Some doctor_su) (note_without_content(''content'' \<mapsto> JStr ''rest''))
               (env_at ''65a1f0c2e4b0a1b2c3d4e5f6'' 7)) st5)
       = Reply (respond 403 ''Access denied to patient records'' NoPayload)"
    using doctor_without_grant_denied [where rq = "req PostNotes (Some doctor_su)
          (note_without_content(''content'' \<mapsto> JStr ''rest'')) (env_at ''65a1f0c2e4b0a1b2c3d4e5f6'' 7)"
        and su = doctor_su and s = st5 and p = patient_id and L = lib0, OF _ d h]
    by (simp add: req_def note_without_content_def insertNoteSchema_def)
  show ?thesis using a d s1 1 2 3 by simp
qed

text \<open>
  Claim C3 as first stated asks for 403 from \<open>POST /api/notes\<close> on every such request.
  In the store \<open>st5\<close>, where the doctor has no grant, a note for the patient that lacks
  \<open>content\<close> is answered 500.
\<close>

theorem notes_without_grant_counterexample:
  "reachable lib0 st5
   \<and> rq_route rq_note_without_content = PostNotes
   \<and> rq_session rq_note_without_content = Some doctor_su \<and> su_role doctor_su = ''doctor''
   \<and> rq_body rq_note_without_content ''patientId'' = Some (JStr patient_id)
   \<and> access st5 = []
   \<and> handle lib0 rq_note_without_content st5
       = (Reply (respond 500 ''Failed to add note'' (ErrorOf ZodError)), Some doctor_su, st5)"
  using reachable_st5
  by (simp add: st5_eval rq_note_without_content_def req_def handle_def requireAuth_def
      requireRole_def doctor_su_def post_notes_def insertNoteSchema_def note_without_content_def)

section \<open>C2: bodies that violate the insert schema\<close>




section \<open>C6: who is verified at registration\<close>

lemma insertUserSchema_role:
  "insertUserSchema L b = Some i \<Longrightarrow> b ''role'' = Some (JStr (iu_role i))"
  by (auto simp add: insertUserSchema_def split: option.splits if_splits elim!: z_enum.elims)

lemma register_201:
  assumes "status (fst (register L e b s)) = 201"
  shows "\<exists>i. insertUserSchema L b = Some i
           \<and> snd (register L e b s)
               = s\<lparr>users := users s
                     @ [user_doc (i\<lparr>iu_verified := (iu_role i = ''admin'')\<rparr>) (insertedId e) (date1 e)]\<rparr>"
  using assms
  by (auto simp add: register_def respond_def createUser_def split: option.splits)

text \<open>
  Claim C6. Whenever \<open>POST /api/register\<close> succeeds (201), exactly one user is added
  and its \<open>verified\<close> flag is \<open>role == 'admin'\<close>, whatever \<open>verified\<close> the
  body carried: true for an administrator, false for a patient or a doctor.
\<close>

theorem register_verified_iff_admin:
  assumes "status (fst (register L e b s)) = 201"
  shows "\<exists>u r. users (snd (register L e b s)) = users s @ [u]
           \<and> b ''role'' = Some (JStr r) \<and> u_role u = r
           \<and> u_verified u = JBool (r = ''admin'')
           \<and> (r = ''admin'' \<longrightarrow> u_verified u = JBool True)
           \<and> (r = ''patient'' \<or> r = ''doctor'' \<longrightarrow> u_verified u = JBool False)"
proof -
  from register_201 [OF assms] obtain i where
    i: "insertUserSchema L b = Some i"
    and s': "snd (register L e b s)
               = s\<lparr>users := users s
                     @ [user_doc (i\<lparr>iu_verified := (iu_role i = ''admin'')\<rparr>) (insertedId e) (date1 e)]\<rparr>"
    by blast
  let ?u = "user_doc (i\<lparr>iu_verified := (iu_role i = ''admin'')\<rparr>) (insertedId e) (date1 e)"
  have "users (snd (register L e b s)) = users s @ [?u]" by (simp add: s')
  moreover have "b ''role'' = Some (JStr (iu_role i))" using i by (rule insertUserSchema_role)
  moreover have "u_role ?u = iu_role i" by (simp add: user_doc_def)
  moreover have "u_verified ?u = JBool (iu_role i = ''admin'')" by (simp add: user_doc_def)
  ultimately show ?thesis by auto
qed

theorem register_verified_iff_admin_witness:
  "status (fst (register lib0 (env_at doctor_id 2) doctor_body st1)) = 201
   \<and> doctor_body ''verified'' = Some (JBool True)
   \<and> users (snd (register lib0 (env_at doctor_id 2) doctor_body st1)) = users st1 @ [doctor_user False]
   \<and> (\<exists>u r. users (snd (register lib0 (env_at doctor_id 2) doctor_body st1)) = users st1 @ [u]
           \<and> doctor_body ''role'' = Some (JStr r) \<and> u_role u = r
           \<and> u_verified u = JBool (r = ''admin'')
           \<and> (r = ''admin'' \<longrightarrow> u_verified u = JBool True)
           \<and> (r = ''patient'' \<or> r = ''doctor'' \<longrightarrow> u_verified u = JBool False))"
proof -
  have e: "register lib0 (env_at doctor_id 2) doctor_body st1
      = (respond 201 ''User registered successfully'' (UserId doctor_id),
         \<lparr>users = [admin_user, doctor_user False], records = [], access = [], notes = []\<rparr>)"
    by (simp add: st1_eval register_def insertUserSchema_def doctor_body_def lib0_def
        getUserByEmail_def createUser_def user_doc_def env_at_def admin_user_def doctor_user_def)
  have 1: "status (fst (register lib0 (env_at doctor_id 2) doctor_body st1)) = 201"
    by (simp add: e respond_def)
  have 2: "doctor_body ''verified'' = Some (JBool True)" by (simp add: doctor_body_def)
  have "users st1 = [admin_user]" by (simp add: st1_eval)
  then have 3: "users (snd (register lib0 (env_at doctor_id 2) doctor_body st1)) = users st1 @ [doctor_user False]"
    using e by simp
  from 1 2 3 register_verified_iff_admin [OF 1] show ?thesis by blast
qed

section \<open>C7: files the upload middleware refuses\<close>

lemma upload_single_refuses:
  assumes "f_mimetype f \<notin> {''application/pdf'', ''image/jpeg'', ''image/png'', ''image/jpg''}
           \<or> 10 * 1024 * 1024 < f_size f"
  shows "upload_single (Some f)
           = Inl (if f_mimetype f \<notin> {''application/pdf'', ''image/jpeg'', ''image/png'', ''image/jpg''}
                  then InvalidFileType else LimitFileSize)"
  using assms by (auto simp add: upload_single_def fileFilter_def allowedTypes_def fileSizeLimit_def)

text \<open>
  Claim C7. A \<open>POST /api/upload\<close> whose file has a MIME type outside
  \<open>{application/pdf, image/jpeg, image/png, image/jpg}\<close>, or is larger than
  \<open>10 * 1024 * 1024\<close> bytes, leaves the store as it is and never reaches the route
  handler: the request ends in a guard (401 or 403) or in the error the upload
  middleware passes on.
\<close>

theorem upload_refused_before_handler:
  assumes "rq_route rq = Upload" and "rq_file rq = Some f"
    and "f_mimetype f \<notin> {''application/pdf'', ''image/jpeg'', ''image/png'', ''image/jpg''}
         \<or> 10 * 1024 * 1024 < f_size f"
  shows "store_after (handle L rq s) = s
     \<and> fst (handle L rq s) =
         (case through [requireAuth (rq_session rq), requireRole [''patient''] (rq_session rq)] of
            Some r \<Rightarrow> Reply r
          | None \<Rightarrow>
              NextError (if f_mimetype f \<notin> {''application/pdf'', ''image/jpeg'', ''image/png'', ''image/jpg''}
                         then InvalidFileType else LimitFileSize))
     \<and> (\<forall>r. fst (handle L rq s) = Reply r \<longrightarrow> status r = 401 \<or> status r = 403)"
proof -
  note u = upload_single_refuses [OF assms(3)]
  have h: "handle L rq s =
      (case through [requireAuth (rq_session rq), requireRole [''patient''] (rq_session rq)] of
         Some r \<Rightarrow> (Reply r, rq_session rq, s)
       | None \<Rightarrow>
           (NextError (if f_mimetype f \<notin> {''application/pdf'', ''image/jpeg'', ''image/png'', ''image/jpg''}
                       then InvalidFileType else LimitFileSize), rq_session rq, s))"
    using assms(1,2) by (simp add: handle_def Let_def u split: option.splits)
  have g: "through [requireAuth (rq_session rq), requireRole [''patient''] (rq_session rq)] = Some r
             \<Longrightarrow> status r = 401 \<or> status r = 403" for r
    by (auto simp add: requireAuth_def requireRole_def respond_def split: option.splits if_splits)
  show ?thesis
    using g by (auto simp add: h store_after_def split: option.splits)
qed

theorem upload_refused_before_handler_witness:
  "handle lib0 (rq_upload script_file) st5 = (NextError InvalidFileType, Some patient_su, st5)
   \<and> handle lib0 (rq_upload huge_pdf) st5 = (NextError LimitFileSize, Some patient_su, st5)
   \<and> fst (handle lib0 ((rq_upload script_file)\<lparr>rq_session := None\<rparr>) st5)
        = Reply (respond 401 ''Authentication required'' NoPayload)
   \<and> store_after (handle lib0 ((rq_upload script_file)\<lparr>rq_session := None\<rparr>) st5) = st5"
proof -
  have g: "through [requireAuth (Some patient_su), requireRole [''patient''] (Some patient_su)] = None"
    by (simp add: requireAuth_def requireRole_def patient_su_def)
  have g': "through [requireAuth None, requireRole [''patient''] None]
              = Some (respond 401 ''Authentication required'' NoPayload)"
    by (simp add: requireAuth_def)
  have 1: "f_mimetype script_file \<notin> {''application/pdf'', ''image/jpeg'', ''image/png'', ''image/jpg''}
         \<or> 10 * 1024 * 1024 < f_size script_file"
    by (simp add: script_file_def)
  have 2: "f_mimetype huge_pdf \<notin> {''application/pdf'', ''image/jpeg'', ''image/png'', ''image/jpg''}
         \<or> 10 * 1024 * 1024 < f_size huge_pdf"
    by (simp add: huge_pdf_def)
  have m: "f_mimetype huge_pdf \<in> {''application/pdf'', ''image/jpeg'', ''image/png'', ''image/jpg''}"
    by (simp add: huge_pdf_def)
  have m': "f_mimetype script_file \<notin> {''application/pdf'', ''image/jpeg'', ''image/png'', ''image/jpg''}"
    by (simp add: script_file_def)
  have r: "rq_route (rq_upload f) = Upload" "rq_file (rq_upload f) = Some f"
     "rq_session (rq_upload f) = Some patient_su" for f
    by (simp_all add: rq_upload_def)
  note t1 = upload_refused_before_handler [where rq = "rq_upload script_file" and f = script_file
      and L = lib0 and s = st5, OF r(1) r(2) 1]
  note t2 = upload_refused_before_handler [where rq = "rq_upload huge_pdf" and f = huge_pdf
      and L = lib0 and s = st5, OF r(1) r(2) 2]
  note t3 = upload_refused_before_handler [where rq = "(rq_upload script_file)\<lparr>rq_session := None\<rparr>"
      and f = script_file and L = lib0 and s = st5, OF _ _ 1]
  have s1: "snd (handle lib0 (rq_upload f) st5) = (Some patient_su, snd (snd (handle lib0 (rq_upload f) st5)))" for f
    by (simp add: handle_def Let_def rq_upload_def case_prod_beta split: option.splits sum.splits)
  have a: "handle lib0 (rq_upload script_file) st5 = (NextError InvalidFileType, Some patient_su, st5)"
    using t1 g m' s1 [of script_file] by (simp add: r store_after_def prod_eq_iff)
  have b: "handle lib0 (rq_upload huge_pdf) st5 = (NextError LimitFileSize, Some patient_su, st5)"
    using t2 g m s1 [of huge_pdf] by (simp add: r store_after_def prod_eq_iff)
  have c: "fst (handle lib0 ((rq_upload script_file)\<lparr>rq_session := None\<rparr>) st5)
        = Reply (respond 401 ''Authentication required'' NoPayload)
      \<and> store_after (handle lib0 ((rq_upload script_file)\<lparr>rq_session := None\<rparr>) st5) = st5"
    using t3 g' by (simp add: r)
  from a b c show ?thesis by simp
qed

section \<open>C8: whose record is created\<close>

lemma insertRecordSchema_patientId:
  "insertRecordSchema b = Some i \<Longrightarrow> z_string (b ''patientId'') = Some (ir_patientId i)"
  by (auto simp add: insertRecordSchema_def split: option.splits)

lemma post_records_200:
  assumes "status (fst (post_records e sess b s)) = 200"
  shows "\<exists>su rec. sess = Some su
           \<and> records (snd (post_records e sess b s)) = records s @ [rec]
           \<and> r_patientId rec = su_id su"
proof (cases sess)
  case None
  with assms show ?thesis by (simp add: post_records_def respond_def)
next
  case (Some su)
  show ?thesis
  proof (cases "insertRecordSchema (b(''patientId'' \<mapsto> JStr (su_id su)))")
    case None
    with Some assms show ?thesis by (simp add: post_records_def respond_def)
  next
    case (Some i)
    from insertRecordSchema_patientId [OF Some] have "ir_patientId i = su_id su" by simp
    with Some \<open>sess = Some su\<close> show ?thesis
      by (simp add: post_records_def createRecord_def record_of_def)
  qed
qed

lemma upload_200:
  assumes "status (fst (upload e sess file b s)) = 200"
  shows "\<exists>su rec. sess = Some su
           \<and> records (snd (upload e sess file b s)) = records s @ [rec]
           \<and> r_patientId rec = su_id su"
proof -
  from assms obtain f su i where
    h: "file = Some f" "sess = Some su" "insertRecordSchema (upload_body su f b) = Some i"
    by (auto simp add: upload_def respond_def split: option.splits)
  from insertRecordSchema_patientId [OF h(3)] have "ir_patientId i = su_id su"
    by (simp add: upload_body_def)
  with h show ?thesis
    by (simp add: upload_def createRecord_def record_of_def)
qed

lemma patient_guards:
  "through [requireAuth sess, requireRole [''patient''] sess] = None
     \<Longrightarrow> \<exists>su. sess = Some su \<and> su_role su = ''patient''"
  by (auto simp add: requireAuth_def requireRole_def split: option.splits if_splits)

text \<open>
  Claim C8. Whenever \<open>POST /api/records\<close> or \<open>POST /api/upload\<close> succeeds (200),
  the session user is a patient, exactly one Record is added, and its \<open>patientId\<close> is
  the session user's id, whatever \<open>patientId\<close> the body carried.
\<close>

theorem record_created_for_session_patient:
  assumes "rq_route rq = PostRecords \<or> rq_route rq = Upload"
    and "fst (handle L rq s) = Reply r" and "status r = 200"
  shows "\<exists>su rec. rq_session rq = Some su \<and> su_role su = ''patient''
           \<and> records (store_after (handle L rq s)) = records s @ [rec]
           \<and> r_patientId rec = su_id su"
proof -
  let ?sess = "rq_session rq"
  have g: "through [requireAuth ?sess, requireRole [''patient''] ?sess] = None"
  proof (cases "through [requireAuth ?sess, requireRole [''patient''] ?sess]")
    case None
    then show ?thesis .
  next
    case (Some r')
    then have "status r' = 401 \<or> status r' = 403"
      by (auto simp add: requireAuth_def requireRole_def respond_def split: option.splits if_splits)
    moreover have "fst (handle L rq s) = Reply r'"
      using assms(1) Some by (auto simp add: handle_def Let_def)
    ultimately show ?thesis using assms(2,3) by auto
  qed
  from patient_guards [OF g] obtain su where su: "?sess = Some su" "su_role su = ''patient''"
    by blast
  from assms(1) show ?thesis
  proof
    assume rt: "rq_route rq = PostRecords"
    then have h: "handle L rq s = (Reply (fst (post_records (rq_env rq) ?sess (rq_body rq) s)), ?sess,
                    snd (post_records (rq_env rq) ?sess (rq_body rq) s))"
      using g by (simp add: handle_def Let_def case_prod_beta)
    with assms(2,3) have "status (fst (post_records (rq_env rq) ?sess (rq_body rq) s)) = 200"
      by simp
    from post_records_200 [OF this] su show ?thesis
      by (auto simp add: h store_after_def)
  next
    assume rt: "rq_route rq = Upload"
    show ?thesis
    proof (cases "upload_single (rq_file rq)")
      case (Inl err)
      with rt g have "fst (handle L rq s) = NextError err"
        by (simp add: handle_def Let_def)
      with assms(2) show ?thesis by simp
    next
      case (Inr fl)
      with rt g have h: "handle L rq s = (Reply (fst (upload (rq_env rq) ?sess fl (rq_body rq) s)), ?sess,
                    snd (upload (rq_env rq) ?sess fl (rq_body rq) s))"
        by (simp add: handle_def Let_def case_prod_beta)
      with assms(2,3) have "status (fst (upload (rq_env rq) ?sess fl (rq_body rq) s)) = 200"
        by simp
      from upload_200 [OF this] su show ?thesis
        by (auto simp add: h store_after_def)
    qed
  qed
qed

theorem record_created_for_session_patient_witness:
  "record_for_someone_else ''patientId'' = Some (JStr doctor_id)
   \<and> fst (handle lib0 rq_record_for_someone_else st5)
       = Reply (respond 200 ''Record created successfully''
           (RecordDoc \<lparr>r_id = ''65a1f0c2e4b0a1b2c3d4e5f8'', r_patientId = patient_id,
              r_filename = ''scan.pdf'', r_filePath = ''uploads/scan.pdf'',
              r_description = ''scan'', r_fileType = ''application/pdf'', r_fileSize = 2048,
              r_uploadDate = 7\<rparr>))
   \<and> (\<exists>su rec. rq_session rq_record_for_someone_else = Some su \<and> su_role su = ''patient''
           \<and> records (store_after (handle lib0 rq_record_for_someone_else st5)) = records st5 @ [rec]
           \<and> r_patientId rec = su_id su)
   \<and> fst (handle lib0 ((rq_upload small_pdf)\<lparr>rq_body := record_for_someone_else\<rparr>) st5)
       = Reply (respond 200 ''File uploaded successfully''
           (RecordDoc \<lparr>r_id = ''65a1f0c2e4b0a1b2c3d4e5f9'', r_patientId = patient_id,
              r_filename = ''report.pdf'', r_filePath = ''uploads/file-7-3.pdf'',
              r_description = ''scan'', r_fileType = ''application/pdf'', r_fileSize = 4096,
              r_uploadDate = 7\<rparr>))
   \<and> (\<exists>su rec. rq_session ((rq_upload small_pdf)\<lparr>rq_body := record_for_someone_else\<rparr>) = Some su
           \<and> su_role su = ''patient''
           \<and> records (store_after (handle lib0 ((rq_upload small_pdf)\<lparr>rq_body := record_for_someone_else\<rparr>) st5))
               = records st5 @ [rec]
           \<and> r_patientId rec = su_id su)"
proof -
  have 1: "record_for_someone_else ''patientId'' = Some (JStr doctor_id)"
    by (simp add: record_for_someone_else_def)
  have 2: "fst (handle lib0 rq_record_for_someone_else st5)
       = Reply (respond 200 ''Record created successfully''
           (RecordDoc \<lparr>r_id = ''65a1f0c2e4b0a1b2c3d4e5f8'', r_patientId = patient_id,
              r_filename = ''scan.pdf'', r_filePath = ''uploads/scan.pdf'',
              r_description = ''scan'', r_fileType = ''application/pdf'', r_fileSize = 2048,
              r_uploadDate = 7\<rparr>))"
    by (simp add: rq_record_for_someone_else_def req_def handle_def requireAuth_def
        requireRole_def patient_su_def post_records_def insertRecordSchema_def
        record_for_someone_else_def createRecord_def record_of_def env_at_def)
  have 3: "rq_route rq_record_for_someone_else = PostRecords \<or> rq_route rq_record_for_someone_else = Upload"
    by (simp add: rq_record_for_someone_else_def req_def)
  have 4: "status (respond 200 m p) = 200" for m p
    by (simp add: respond_def)
  have 5: "fst (handle lib0 ((rq_upload small_pdf)\<lparr>rq_body := record_for_someone_else\<rparr>) st5)
       = Reply (respond 200 ''File uploaded successfully''
           (RecordDoc \<lparr>r_id = ''65a1f0c2e4b0a1b2c3d4e5f9'', r_patientId = patient_id,
              r_filename = ''report.pdf'', r_filePath = ''uploads/file-7-3.pdf'',
              r_description = ''scan'', r_fileType = ''application/pdf'', r_fileSize = 4096,
              r_uploadDate = 7\<rparr>))"
    by (simp add: rq_upload_def handle_def requireAuth_def requireRole_def patient_su_def
        upload_single_def fileFilter_def allowedTypes_def fileSizeLimit_def small_pdf_def
        upload_def upload_body_def insertRecordSchema_def record_for_someone_else_def
        createRecord_def record_of_def env_at_def)
  have 6: "rq_route ((rq_upload small_pdf)\<lparr>rq_body := record_for_someone_else\<rparr>) = PostRecords
         \<or> rq_route ((rq_upload small_pdf)\<lparr>rq_body := record_for_someone_else\<rparr>) = Upload"
    by (simp add: rq_upload_def)
  from 1 2 5 record_created_for_session_patient [OF 3 2 4]
    record_created_for_session_patient [OF 6 5 4]
  show ?thesis by blast
qed

end
